(* ===== verification/Prelude.thy ===== *)
theory Prelude
  imports Main "HOL-Library.Word" "HOL-Library.Sublist"
begin

text \<open>
  Shared vocabulary of the Bartr screen models.
  \<^item> JavaScript strings are sequences of UTF-16 code units: \<open>jsstr\<close> is a list of
    \<open>16 word\<close>, and \<open>.length\<close> is \<open>length\<close>. \<open>str\<close> embeds an ASCII/Latin-1
    literal of the sources (\<open>str ''/home''\<close>), so that witnesses evaluate by \<open>simp\<close>.
  \<^item> \<open>js_ws\<close> is ECMAScript's WhiteSpace and LineTerminator set and \<open>js_trim\<close> is
    \<open>String.prototype.trim\<close>; \<open>is_digit\<close> is the regular-expression class \<open>\\d\<close>.
  \<^item> \<open>effect\<close> is what a screen handler asks of its environment besides its own state:
    nothing, a \<open>console.log\<close> line, or a navigation (a react-router \<open>Link\<close>, a
    \<open>navigate()\<close> call, or an assignment to \<open>window.location.href\<close>, which reloads
    the page).
  \<^item> \<open>js_nat_string\<close> is the text JSX interpolation prints for a non-negative integer.
\<close>

named_theorems js_simps "evaluation rules of the JavaScript value model"

type_synonym code_unit = "16 word"
type_synonym jsstr = "code_unit list"
type_synonym path = string

definition str :: "string \<Rightarrow> jsstr" where
  "str s = map (\<lambda>c. of_nat (of_char c)) s"

definition js_ws :: "code_unit \<Rightarrow> bool" where
  "js_ws c \<longleftrightarrow>
     c = 0x09 \<or> c = 0x0B \<or> c = 0x0C \<or> c = 0x20 \<or> c = 0xA0 \<or> c = 0xFEFF
   \<or> c = 0x1680 \<or> (0x2000 \<le> c \<and> c \<le> 0x200A) \<or> c = 0x202F \<or> c = 0x205F
   \<or> c = 0x3000 \<or> c = 0x0A \<or> c = 0x0D \<or> c = 0x2028 \<or> c = 0x2029"

definition js_trim :: "jsstr \<Rightarrow> jsstr" where
  "js_trim s = rev (dropWhile js_ws (rev (dropWhile js_ws s)))"

definition is_digit :: "code_unit \<Rightarrow> bool" where
  "is_digit c \<longleftrightarrow> 0x30 \<le> c \<and> c \<le> 0x39"

datatype nav_kind = Router_link | Router_navigate | Location_href

datatype effect = No_effect | Console_log jsstr | Navigate nav_kind path

declare is_digit_def [js_simps] js_ws_def [js_simps]

subsection \<open>The string embedding\<close>

text \<open>\<open>String(n)\<close> of a non-negative integer, as JSX interpolation \<open>{n}\<close> prints a
  number: its decimal digits, most significant first.\<close>

function js_nat_string :: "nat \<Rightarrow> jsstr" where
  "js_nat_string n =
     (if n < 10 then [of_nat (48 + n)] else js_nat_string (n div 10) @ [of_nat (48 + n mod 10)])"
  by auto
termination by (relation "measure id") auto

declare js_nat_string.simps [simp del]

lemma str_Nil [simp, js_simps]: "str [] = []"
  by (simp add: str_def)

lemma str_Cons [js_simps]: "str (c # s) = of_nat (of_char c) # str s"
  by (simp add: str_def)

lemma str_append [simp]: "str (s @ t) = str s @ str t"
  by (simp add: str_def)

lemma str_eq_Nil_iff [simp]: "str s = [] \<longleftrightarrow> s = []"
  by (simp add: str_def)

lemma take_str [simp]: "take n (str s) = str (take n s)"
  by (simp add: str_def take_map)

lemma drop_str [simp]: "drop n (str s) = str (drop n s)"
  by (simp add: str_def drop_map)

lemma length_str [simp]: "length (str s) = length s"
  by (simp add: str_def)

lemma of_char_code_unit_inj:
  "(of_nat (of_char a) :: code_unit) = of_nat (of_char b) \<longleftrightarrow> a = b"
proof
  assume h: "(of_nat (of_char a) :: code_unit) = of_nat (of_char b)"
  have la: "of_char a < (256::nat)"
    by (metis of_char_mod_256 mod_less_divisor zero_less_numeral)
  have lb: "of_char b < (256::nat)"
    by (metis of_char_mod_256 mod_less_divisor zero_less_numeral)
  from h have "unat (of_nat (of_char a) :: code_unit) = unat (of_nat (of_char b) :: code_unit)"
    by simp
  moreover have "(of_char a :: nat) mod 65536 = of_char a"
    using la by (intro mod_less) linarith
  moreover have "(of_char b :: nat) mod 65536 = of_char b"
    using lb by (intro mod_less) linarith
  ultimately show "a = b"
    by (simp add: unat_of_nat)
qed simp

lemma str_inj [simp]: "str s = str t \<longleftrightarrow> s = t"
proof
  assume "str s = str t"
  then show "s = t"
  proof (induction s arbitrary: t)
    case Nil
    then show ?case by (cases t) (simp_all add: str_Cons)
  next
    case (Cons c s)
    then show ?case by (cases t) (simp_all add: str_Cons of_char_code_unit_inj)
  qed
qed simp

subsection \<open>\<open>String.prototype.trim\<close>\<close>

lemma dropWhile_rtrim:
  "dropWhile P (rev (dropWhile P (rev (dropWhile P s)))) = rev (dropWhile P (rev (dropWhile P s)))"
proof (cases "rev (dropWhile P (rev (dropWhile P s)))")
  case (Cons c t)
  have "rev (dropWhile P s) = takeWhile P (rev (dropWhile P s)) @ dropWhile P (rev (dropWhile P s))"
    by simp
  then have "dropWhile P s = rev (dropWhile P (rev (dropWhile P s))) @ rev (takeWhile P (rev (dropWhile P s)))"
    by (metis rev_append rev_rev_ident)
  with Cons have "hd (dropWhile P s) = c"
    by (metis append_Cons list.sel(1))
  moreover have "dropWhile P s \<noteq> []"
  proof
    assume "dropWhile P s = []"
    with Cons show False by simp
  qed
  ultimately have "\<not> P c"
    using hd_dropWhile by metis
  with Cons show ?thesis by simp
next
  case Nil
  then show ?thesis by (simp only: Nil dropWhile.simps(1))
qed

lemma js_trim_idem [simp]: "js_trim (js_trim s) = js_trim s"
  by (simp add: js_trim_def dropWhile_rtrim)

lemma length_js_trim_le: "length (js_trim s) \<le> length s"
proof -
  have "length (dropWhile js_ws (rev (dropWhile js_ws s))) \<le> length (rev (dropWhile js_ws s))"
    by (rule length_dropWhile_le)
  also have "\<dots> \<le> length s"
    by (simp add: length_dropWhile_le)
  finally show ?thesis by (simp add: js_trim_def)
qed

lemma list_all_dropWhile_iff: "list_all P (dropWhile P s) \<longleftrightarrow> list_all P s"
proof
  assume h: "list_all P (dropWhile P s)"
  have "dropWhile P s = []"
  proof (rule ccontr)
    assume ne: "dropWhile P s \<noteq> []"
    then have "\<not> P (hd (dropWhile P s))"
      by (rule hd_dropWhile)
    with h ne show False
      by (cases "dropWhile P s") simp_all
  qed
  then show "list_all P s"
    by (simp add: list_all_iff)
next
  assume "list_all P s"
  then show "list_all P (dropWhile P s)"
    by (auto simp: list_all_iff dest: set_dropWhileD)
qed

lemma js_trim_Nil_iff: "js_trim s = [] \<longleftrightarrow> list_all js_ws s"
proof -
  have "js_trim s = [] \<longleftrightarrow> list_all js_ws (dropWhile js_ws s)"
    by (simp add: js_trim_def list_all_iff)
  also have "\<dots> \<longleftrightarrow> list_all js_ws s"
    by (rule list_all_dropWhile_iff)
  finally show ?thesis .
qed

text \<open>A string whose first and last code units are not white space is its own trim.\<close>

lemma js_trim_no_ws_ends:
  assumes "s \<noteq> []" "\<not> js_ws (hd s)" "\<not> js_ws (last s)"
  shows "js_trim s = s"
proof -
  from assms have "dropWhile js_ws s = s"
    by (cases s) simp_all
  moreover from assms have "dropWhile js_ws (rev s) = rev s"
    by (cases "rev s") (simp_all add: hd_rev)
  ultimately show ?thesis by (simp add: js_trim_def)
qed

text \<open>A literal whose first and last characters are printable ASCII is its own trim.\<close>

lemma js_trim_str:
  assumes "s \<noteq> []" "\<not> js_ws (of_nat (of_char (hd s)))" "\<not> js_ws (of_nat (of_char (last s)))"
  shows "js_trim (str s) = str s"
proof (rule js_trim_no_ws_ends)
  show "str s \<noteq> []" using assms(1) by (simp add: str_def)
  show "\<not> js_ws (hd (str s))" using assms(1,2) by (simp add: str_def hd_map)
  show "\<not> js_ws (last (str s))" using assms(1,3) by (simp add: str_def last_map)
qed

lemma is_digit_not_ws: "is_digit c \<Longrightarrow> \<not> js_ws c"
proof -
  assume "is_digit c"
  then have "48 \<le> unat c" "unat c \<le> 57"
    by (simp_all add: is_digit_def word_le_nat_alt)
  then show ?thesis
    by (simp add: js_ws_def word_le_nat_alt word_unat_eq_iff)
qed

end
