(* ===== verification/JS_Regex.thy ===== *)
theory JS_Regex
  imports Prelude
begin

text \<open>
  The part of ECMAScript's \<open>RegExp.prototype.test\<close> that the sources use: patterns
  built from character classes, concatenation, alternation, the anchors \<open>^\<close> and
  \<open>$\<close> (no \<open>m\<close> flag) and exact counted repetition \<open>{n}\<close>, matched against the
  UTF-16 code units of the input (no \<open>u\<close> flag). \<open>res n r s\<close> lists the inputs left
  after \<open>r\<close> has matched a prefix of \<open>s\<close>, in backtracking order, where \<open>n\<close> is the
  length of the whole input (so that \<open>^\<close> can tell whether it stands at index 0).
  \<open>regex_test r s\<close> tries every start index, as \<open>test\<close> does with \<open>lastIndex = 0\<close>.
  The counted repetition \<open>r{n}\<close> is the \<open>n\<close>-fold concatenation \<open>rep n r\<close>, which
  is what ECMAScript's RepeatMatcher with \<open>min = max = n\<close> accepts.
\<close>

datatype regex =
    Eps
  | Cls "(code_unit \<times> code_unit) list"
  | Seq regex regex
  | Alt regex regex
  | Bol
  | Eol

definition in_class :: "(code_unit \<times> code_unit) list \<Rightarrow> code_unit \<Rightarrow> bool" where
  "in_class rs c \<longleftrightarrow> list_ex (\<lambda>(lo, hi). lo \<le> c \<and> c \<le> hi) rs"

fun res :: "nat \<Rightarrow> regex \<Rightarrow> jsstr \<Rightarrow> jsstr list" where
  "res n Eps s = [s]"
| "res n (Cls rs) [] = []"
| "res n (Cls rs) (c # s) = (if in_class rs c then [s] else [])"
| "res n (Seq r1 r2) s = concat (map (res n r2) (res n r1 s))"
| "res n (Alt r1 r2) s = res n r1 s @ res n r2 s"
| "res n Bol s = (if length s = n then [s] else [])"
| "res n Eol s = (if s = [] then [s] else [])"

primrec rep :: "nat \<Rightarrow> regex \<Rightarrow> regex" where
  "rep 0 r = Eps"
| "rep (Suc k) r = Seq r (rep k r)"

definition regex_test :: "regex \<Rightarrow> jsstr \<Rightarrow> bool" where
  "regex_test r s \<longleftrightarrow> list_ex (\<lambda>i. res (length s) r (drop i s) \<noteq> []) [0..<Suc (length s)]"

text \<open>The class \<open>\\d\<close> without the \<open>u\<close> flag: the ASCII digits.\<close>

definition digit_class :: regex where
  "digit_class = Cls [(0x30, 0x39)]"

subsection \<open>Residuals\<close>

text \<open>Every residual is a suffix of the input: matching only consumes.\<close>

lemma res_suffix: "t \<in> set (res n r s) \<Longrightarrow> suffix t s"
proof (induction n r s arbitrary: t rule: res.induct)
  case (4 n r1 r2 s)
  then show ?case by (auto intro: suffix_order.trans)
qed (auto simp: suffix_def split: if_splits)

lemma in_class_digit [simp]: "in_class [(0x30, 0x39)] = is_digit"
  by (rule ext) (simp add: in_class_def is_digit_def)

text \<open>A counted repetition of one class consumes exactly \<open>k\<close> code units of the class.\<close>

lemma res_rep_Cls:
  "res n (rep k (Cls rs)) s =
     (if k \<le> length s \<and> list_all (in_class rs) (take k s) then [drop k s] else [])"
proof (induction k arbitrary: s)
  case 0
  then show ?case by simp
next
  case (Suc k)
  show ?case
  proof (cases s)
    case Nil
    then show ?thesis by simp
  next
    case (Cons c s')
    with Suc.IH [of s'] show ?thesis by auto
  qed
qed

lemma concat_map_res_Eol: "concat (map (res n Eol) ts) = filter (\<lambda>t. t = []) ts"
  by (induction ts) auto

lemma res_Seq_Eol:
  "res n (Seq r Eol) s = filter (\<lambda>t. t = []) (res n r s)"
  by (simp add: concat_map_res_Eol)

text \<open>
  With a leading \<open>^\<close> only start index 0 can match, so \<open>test\<close> is a single match
  attempt against the whole input.
\<close>

lemma regex_test_Bol:
  "regex_test (Seq Bol r) s \<longleftrightarrow> res (length s) r s \<noteq> []"
proof -
  have eq: "length s - i = length s \<longleftrightarrow> drop i s = s" for i
  proof
    assume "length s - i = length s"
    then have "i = 0 \<or> s = []" by (cases s) auto
    then show "drop i s = s" by auto
  qed (metis length_drop)
  have "res (length s) (Seq Bol r) (drop i s) \<noteq> [] \<longleftrightarrow>
          drop i s = s \<and> res (length s) r s \<noteq> []" for i
    by (auto simp: eq)
  then have "regex_test (Seq Bol r) s \<longleftrightarrow>
      (\<exists>i \<in> set [0..<Suc (length s)]. drop i s = s \<and> res (length s) r s \<noteq> [])"
    by (simp add: regex_test_def list_ex_iff)
  also have "\<dots> \<longleftrightarrow> res (length s) r s \<noteq> []"
    by (auto intro: bexI [of _ 0])
  finally show ?thesis .
qed

end
