(* ===== verification/Login.thy ===== *)
theory Login
  imports Prelude JS_Regex
begin

text \<open>
  The login screen, \<^verbatim>\<open>src/client/pages/Login.tsx\<close>. Its \<open>useState\<close> hooks form
  the record \<open>login_state\<close>; \<open>validatePhone\<close>, \<open>handlePhoneSubmit\<close> and
  \<open>handleOtpSubmit\<close> are the component's functions; \<open>login_handle\<close> is what each
  rendered control does when the user acts on it. A control that is not rendered in the
  current step, or a button that is \<open>disabled\<close>, fires nothing, so its event leaves the
  state unchanged. The \<open>maxLength\<close> of the two inputs bounds the values the browser
  hands to \<open>onChange\<close>: that is \<open>login_input_ok\<close>.
\<close>

datatype login_step = Step_phone | Step_otp

record login_errors =
  phone_error :: "jsstr option"
  otp_error :: "jsstr option"

record login_state =
  step :: login_step
  phoneNumber :: jsstr
  otp :: jsstr
  errors :: login_errors

definition no_errors :: login_errors where
  "no_errors = \<lparr>phone_error = None, otp_error = None\<rparr>"

definition login_init :: login_state where
  "login_init = \<lparr>step = Step_phone, phoneNumber = [], otp = [], errors = no_errors\<rparr>"

definition phone_message :: jsstr where
  "phone_message = str ''Please enter a valid 10-digit mobile number''"

definition otp_message :: jsstr where
  "otp_message = str ''Please enter a valid 6-digit OTP''"

text \<open>\<open>/^[6-9]\\d{9}$/\<close>\<close>

definition phoneRegex :: regex where
  "phoneRegex = Seq Bol (Seq (Cls [(0x36, 0x39)]) (Seq (rep 9 digit_class) Eol))"

definition validatePhone :: "jsstr \<Rightarrow> bool" where
  "validatePhone phone = regex_test phoneRegex phone"

definition handlePhoneSubmit :: "login_state \<Rightarrow> login_state" where
  "handlePhoneSubmit s =
     (if \<not> validatePhone (phoneNumber s)
      then s\<lparr>errors := \<lparr>phone_error = Some phone_message, otp_error = None\<rparr>\<rparr>
      else s\<lparr>errors := no_errors, step := Step_otp\<rparr>)"

definition handleOtpSubmit :: "login_state \<Rightarrow> login_state \<times> effect" where
  "handleOtpSubmit s =
     (if length (otp s) \<noteq> 6
      then (s\<lparr>errors := \<lparr>phone_error = None, otp_error = Some otp_message\<rparr>\<rparr>, No_effect)
      else (s\<lparr>errors := no_errors\<rparr>, Navigate Location_href ''/home''))"

datatype login_event =
    Back_link
  | Phone_input jsstr
  | Send_otp_click
  | Google_click
  | Otp_input jsstr
  | Verify_click
  | Resend_click
  | Skip_link

definition sendOtpDisabled :: "login_state \<Rightarrow> bool" where
  "sendOtpDisabled s \<longleftrightarrow> length (phoneNumber s) \<noteq> 10"

definition verifyDisabled :: "login_state \<Rightarrow> bool" where
  "verifyDisabled s \<longleftrightarrow> length (otp s) \<noteq> 6"

fun login_handle :: "login_state \<Rightarrow> login_event \<Rightarrow> login_state \<times> effect" where
  "login_handle s Back_link = (s, Navigate Router_link ''/'')"
| "login_handle s (Phone_input v) =
     (if step s = Step_phone then (s\<lparr>phoneNumber := v\<rparr>, No_effect) else (s, No_effect))"
| "login_handle s Send_otp_click =
     (if step s = Step_phone \<and> \<not> sendOtpDisabled s then (handlePhoneSubmit s, No_effect)
      else (s, No_effect))"
| "login_handle s Google_click = (s, No_effect)"
| "login_handle s (Otp_input v) =
     (if step s = Step_otp then (s\<lparr>otp := v\<rparr>, No_effect) else (s, No_effect))"
| "login_handle s Verify_click =
     (if step s = Step_otp \<and> \<not> verifyDisabled s then handleOtpSubmit s else (s, No_effect))"
| "login_handle s Resend_click =
     (if step s = Step_otp then (s\<lparr>step := Step_phone\<rparr>, No_effect) else (s, No_effect))"
| "login_handle s Skip_link = (s, Navigate Router_link ''/home'')"

fun login_input_ok :: "login_event \<Rightarrow> bool" where
  "login_input_ok (Phone_input v) \<longleftrightarrow> length v \<le> 10"
| "login_input_ok (Otp_input v) \<longleftrightarrow> length v \<le> 6"
| "login_input_ok _ \<longleftrightarrow> True"

text \<open>What the screen shows: the header, the prompt, the error line under the visible input,
  whether the primary button is enabled, and the terms line under both steps.\<close>

record login_view =
  view_title :: jsstr
  view_prompt :: jsstr
  view_error :: "jsstr option"
  view_primary_enabled :: bool
  view_terms :: jsstr

definition terms_line :: jsstr where
  "terms_line = str ''By continuing, you agree to our Terms of Service and Privacy Policy''"

definition login_render :: "login_state \<Rightarrow> login_view" where
  "login_render s =
     (if step s = Step_phone
      then \<lparr>view_title = str ''Welcome Back'',
            view_prompt = str ''Enter your mobile number to continue'',
            view_error = phone_error (errors s),
            view_primary_enabled = \<not> sendOtpDisabled s,
            view_terms = terms_line\<rparr>
      else \<lparr>view_title = str ''Verify OTP'',
            view_prompt = str ''We've sent a 6-digit code to +91 '' @ phoneNumber s,
            view_error = otp_error (errors s),
            view_primary_enabled = \<not> verifyDisabled s,
            view_terms = terms_line\<rparr>)"

inductive login_reachable :: "login_state \<Rightarrow> bool" where
  login_start: "login_reachable login_init"
| login_next: "login_reachable s \<Longrightarrow> login_input_ok e \<Longrightarrow> login_reachable (fst (login_handle s e))"

definition login_inv :: "login_state \<Rightarrow> bool" where
  "login_inv s \<longleftrightarrow>
     length (phoneNumber s) \<le> 10 \<and> length (otp s) \<le> 6
   \<and> (step s = Step_otp \<longrightarrow> validatePhone (phoneNumber s))
   \<and> otp_error (errors s) = None
   \<and> (phone_error (errors s) = None \<or> phone_error (errors s) = Some phone_message)
   \<and> (step s = Step_otp \<longrightarrow> errors s = no_errors)"

subsection \<open>Phone validation\<close>

lemmas login_defs = handlePhoneSubmit_def handleOtpSubmit_def no_errors_def
  sendOtpDisabled_def verifyDisabled_def

declare concat_map_res_Eol [simp]

text \<open>The regular expression accepts exactly ten ASCII digits of which the first is 6 to 9.\<close>

lemma validatePhone_iff:
  "validatePhone s \<longleftrightarrow>
     (case s of [] \<Rightarrow> False
      | c # t \<Rightarrow> 0x36 \<le> c \<and> c \<le> 0x39 \<and> length t = 9 \<and> list_all is_digit t)"
proof -
  have "validatePhone s \<longleftrightarrow>
          res (length s) (Seq (Cls [(0x36, 0x39)]) (Seq (rep 9 digit_class) Eol)) s \<noteq> []"
    by (simp add: validatePhone_def phoneRegex_def regex_test_Bol)
  also have "\<dots> \<longleftrightarrow>
      (case s of [] \<Rightarrow> False
       | c # t \<Rightarrow> 0x36 \<le> c \<and> c \<le> 0x39 \<and> length t = 9 \<and> list_all is_digit t)"
    by (cases s) (auto simp: digit_class_def res_rep_Cls in_class_def)
  finally show ?thesis .
qed

lemma validatePhone_length: "validatePhone s \<Longrightarrow> length s = 10"
  by (auto simp: validatePhone_iff split: list.splits)

subsection \<open>The step machine of the screen\<close>

lemma login_init_inv: "login_inv login_init"
  by (simp add: login_inv_def login_init_def no_errors_def)

lemma login_handle_inv:
  "login_inv s \<Longrightarrow> login_input_ok e \<Longrightarrow> login_inv (fst (login_handle s e))"
  by (cases e) (auto simp: login_inv_def login_defs)

lemma login_reachable_inv: "login_reachable s \<Longrightarrow> login_inv s"
proof (induction rule: login_reachable.induct)
  case login_start
  show ?case by (rule login_init_inv)
next
  case (login_next s e)
  from login_next.IH login_next.hyps(2) show ?case by (rule login_handle_inv)
qed

text \<open>
  C3. \<open>validatePhone\<close>, the test of \<open>/^[6-9]\\d{9}$/\<close>, holds exactly for strings
  of ten ASCII digits whose first digit is 6, 7, 8 or 9.
\<close>

theorem validatePhone_spec:
  "validatePhone s \<longleftrightarrow>
     length s = 10 \<and> (case s of [] \<Rightarrow> False | c # t \<Rightarrow> 0x36 \<le> c \<and> c \<le> 0x39)
     \<and> list_all is_digit (tl s)"
  by (auto simp: validatePhone_iff split: list.splits)

text \<open>
  C7. On the phone-entry step, an event moves the screen to the OTP step exactly when it is
  a click on Send OTP while the entered number is valid; every other event, and a click
  with an invalid number, leaves the screen on phone entry.
\<close>

theorem login_phone_to_otp:
  assumes "step s = Step_phone"
  shows "step (fst (login_handle s e)) = Step_otp \<longleftrightarrow>
           e = Send_otp_click \<and> validatePhone (phoneNumber s)"
  using assms validatePhone_length [of "phoneNumber s"]
  by (cases e) (auto simp: login_defs)

theorem login_phone_to_otp_witness:
  "step (login_init\<lparr>phoneNumber := str ''9876543210''\<rparr>) = Step_phone \<and>
   (step (fst (login_handle (login_init\<lparr>phoneNumber := str ''9876543210''\<rparr>) Send_otp_click))
      = Step_otp \<longleftrightarrow>
    Send_otp_click = Send_otp_click \<and> validatePhone (str ''9876543210''))"
  using login_phone_to_otp [of "login_init\<lparr>phoneNumber := str ''9876543210''\<rparr>" Send_otp_click]
  by (simp add: login_init_def)

text \<open>
  C8. In every state the login screen can reach, the OTP error line is empty, so the
  message ``Please enter a valid 6-digit OTP'' is never shown: the Verify button is
  disabled whenever \<open>handleOtpSubmit\<close> would set it. On the OTP step the entered number
  is always a valid one, and both inputs stay within their \<open>maxLength\<close>.
\<close>

theorem login_reachable_no_otp_error:
  assumes "login_reachable s"
  shows "view_error (login_render s) \<noteq> Some otp_message
       \<and> (step s = Step_otp \<longrightarrow> validatePhone (phoneNumber s))
       \<and> length (phoneNumber s) \<le> 10 \<and> length (otp s) \<le> 6"
proof -
  from assms have inv: "login_inv s" by (rule login_reachable_inv)
  have "phone_message \<noteq> otp_message"
    by (simp add: phone_message_def otp_message_def)
  with inv show ?thesis
    by (auto simp: login_inv_def login_render_def)
qed

theorem login_reachable_no_otp_error_witness:
  "login_reachable (fst (login_handle (fst (login_handle login_init
       (Phone_input (str ''9876543210'')))) Send_otp_click)) \<and>
   view_error (login_render (fst (login_handle (fst (login_handle login_init
       (Phone_input (str ''9876543210'')))) Send_otp_click))) \<noteq> Some otp_message \<and>
   step (fst (login_handle (fst (login_handle login_init
       (Phone_input (str ''9876543210'')))) Send_otp_click)) = Step_otp \<and>
   validatePhone (phoneNumber (fst (login_handle (fst (login_handle login_init
       (Phone_input (str ''9876543210'')))) Send_otp_click)))"
proof -
  let ?s1 = "fst (login_handle login_init (Phone_input (str ''9876543210'')))"
  let ?s2 = "fst (login_handle ?s1 Send_otp_click)"
  have r1: "login_reachable ?s1"
    by (rule login_next [OF login_start]) simp
  have r2: "login_reachable ?s2"
    by (rule login_next [OF r1]) simp
  have "step ?s2 = Step_otp"
    by (simp add: login_init_def login_defs validatePhone_iff is_digit_def js_simps)
  with login_reachable_no_otp_error [OF r2] r2 show ?thesis
    by simp
qed

text \<open>
  C12. The login screen hands over to the home feed by assigning \<open>window.location.href\<close>
  exactly on a click on Verify while on the OTP step with an OTP of six code units,
  whatever those code units are.
\<close>

theorem login_verify_leaves:
  "snd (login_handle s e) = Navigate Location_href ''/home'' \<longleftrightarrow>
     e = Verify_click \<and> step s = Step_otp \<and> length (otp s) = 6"
  by (cases e) (auto simp: login_defs)

text \<open>
  C25. Resend OTP only goes back to the phone step: the entered number and the entered
  code are kept, so sending the same number again returns to exactly the state before,
  with the earlier code still filled in (and Verify enabled if it had six code units).
\<close>

theorem resend_keeps_code:
  assumes "login_reachable s" and "step s = Step_otp"
  shows "fst (login_handle (fst (login_handle s Resend_click)) Send_otp_click) = s"
proof -
  from login_reachable_inv [OF assms(1)] assms(2)
  have v: "validatePhone (phoneNumber s)" and e: "errors s = no_errors"
    by (simp_all add: login_inv_def)
  from validatePhone_length [OF v] have "\<not> sendOtpDisabled (s\<lparr>step := Step_phone\<rparr>)"
    by (simp add: sendOtpDisabled_def)
  with v e assms(2) show ?thesis
    by (simp add: handlePhoneSubmit_def)
qed

theorem resend_keeps_code_witness:
  "login_reachable (fst (login_handle (fst (login_handle (fst (login_handle login_init
       (Phone_input (str ''9876543210'')))) Send_otp_click)) (Otp_input (str ''123456''))))
   \<and> otp (fst (login_handle (fst (login_handle (fst (login_handle (fst (login_handle (fst
       (login_handle login_init (Phone_input (str ''9876543210'')))) Send_otp_click))
       (Otp_input (str ''123456'')))) Resend_click)) Send_otp_click)) = str ''123456''"
proof -
  let ?s1 = "fst (login_handle login_init (Phone_input (str ''9876543210'')))"
  let ?s2 = "fst (login_handle ?s1 Send_otp_click)"
  let ?s3 = "fst (login_handle ?s2 (Otp_input (str ''123456'')))"
  have r: "login_reachable ?s3"
    by (intro login_next login_start) simp_all
  have st: "step ?s2 = Step_otp"
    by (simp add: login_init_def login_defs validatePhone_iff is_digit_def js_simps)
  then have "step ?s3 = Step_otp" and "otp ?s3 = str ''123456''"
    by simp_all
  with resend_keeps_code [OF r] r show ?thesis
    by simp
qed

end
