(* ===== verification/CreatePost.thy ===== *)
theory CreatePost
  imports Prelude
begin

text \<open>
  The create-post form, \<^verbatim>\<open>src/client/pages/CreatePost.tsx\<close>. The five
  \<open>useState\<close> hooks are the first five fields of \<open>create_state\<close>; the sixth,
  \<open>readers\<close>, is the browser's side: the \<open>FileReader\<close>s started by
  \<open>handleImageUpload\<close> whose \<open>onload\<close> has not run yet, in start order. Their
  \<open>onload\<close> callbacks run later, in an order the page does not control: the event
  \<open>Reader_load i\<close> is the \<open>i\<close>-th outstanding reader finishing. A \<open>file\<close> is
  (\<open>js_file\<close>) known by its name and by the data URL \<open>readAsDataURL\<close> yields for it.
  \<open>handleSubmit\<close> and \<open>isFormValid\<close> are the component's; \<open>create_handle\<close> is
  what each control does, with the Push button firing only when it is not
  \<open>disabled\<close>.
\<close>

record js_file =
  file_name :: jsstr
  file_dataURL :: jsstr

record category_option =
  cat_value :: jsstr
  cat_label :: jsstr
  cat_color :: jsstr

definition categories :: "category_option list" where
  "categories =
    [\<lparr>cat_value = str ''help'', cat_label = str ''Help'', cat_color = str ''bg-blue-100 text-blue-800''\<rparr>,
     \<lparr>cat_value = str ''work'', cat_label = str ''Work'', cat_color = str ''bg-green-100 text-green-800''\<rparr>,
     \<lparr>cat_value = str ''services'', cat_label = str ''Services'',
      cat_color = str ''bg-purple-100 text-purple-800''\<rparr>,
     \<lparr>cat_value = str ''alert'', cat_label = str ''Alert'', cat_color = str ''bg-red-100 text-red-800''\<rparr>]"

record create_state =
  category :: jsstr
  description :: jsstr
  isAnonymous :: bool
  selectedImage :: "js_file option"
  imagePreview :: jsstr
  readers :: "js_file list"

definition create_init :: create_state where
  "create_init = \<lparr>category = [], description = [], isAnonymous = False,
     selectedImage = None, imagePreview = [], readers = []\<rparr>"

definition handleImageUpload :: "js_file option \<Rightarrow> create_state \<Rightarrow> create_state" where
  "handleImageUpload file s =
     (case file of None \<Rightarrow> s
      | Some f \<Rightarrow> s\<lparr>selectedImage := Some f, readers := readers s @ [f]\<rparr>)"

definition reader_onload :: "nat \<Rightarrow> create_state \<Rightarrow> create_state" where
  "reader_onload i s =
     (if i < length (readers s)
      then s\<lparr>imagePreview := file_dataURL (readers s ! i),
             readers := take i (readers s) @ drop (Suc i) (readers s)\<rparr>
      else s)"

definition handleSubmit :: "create_state \<Rightarrow> create_state \<times> effect" where
  "handleSubmit s =
     (if category s = [] \<or> js_trim (description s) = [] then (s, No_effect)
      else (s, Navigate Router_navigate ''/push-confirmation''))"

definition isFormValid :: "create_state \<Rightarrow> bool" where
  "isFormValid s \<longleftrightarrow> category s \<noteq> [] \<and> 10 < length (js_trim (description s))"

datatype create_event =
    Back_to_home_link
  | Category_select jsstr
  | Description_input jsstr
  | Image_change "js_file option"
  | Reader_load nat
  | Anonymous_toggle
  | Push_click

fun create_handle :: "create_state \<Rightarrow> create_event \<Rightarrow> create_state \<times> effect" where
  "create_handle s Back_to_home_link = (s, Navigate Router_link ''/home'')"
| "create_handle s (Category_select v) = (s\<lparr>category := v\<rparr>, No_effect)"
| "create_handle s (Description_input v) = (s\<lparr>description := v\<rparr>, No_effect)"
| "create_handle s (Image_change f) = (handleImageUpload f s, No_effect)"
| "create_handle s (Reader_load i) = (reader_onload i s, No_effect)"
| "create_handle s Anonymous_toggle = (s\<lparr>isAnonymous := \<not> isAnonymous s\<rparr>, No_effect)"
| "create_handle s Push_click = (if isFormValid s then handleSubmit s else (s, No_effect))"

text \<open>What the browser can hand to the handlers: a value of one of the four
  \<open>SelectItem\<close>s, a description within the \<open>maxLength\<close> of 500, and files whose
  data URL is one (it starts with \<open>data:\<close>).\<close>

fun create_input_ok :: "create_event \<Rightarrow> bool" where
  "create_input_ok (Category_select v) \<longleftrightarrow> v \<in> set (map cat_value categories)"
| "create_input_ok (Description_input v) \<longleftrightarrow> length v \<le> 500"
| "create_input_ok (Image_change (Some f)) \<longleftrightarrow> take 5 (file_dataURL f) = str ''data:''"
| "create_input_ok _ \<longleftrightarrow> True"

text \<open>The rendered page, in document order: the header with its back link, the location
  line, the category label, what the \<open>Select\<close> trigger shows (the placeholder while no
  category is chosen, else the label of the option whose value is chosen), the options
  (value, colour class, label), the description label, placeholder, value, hint and counter
  \<open>{description.length}/500\<close>, the photo label, the preview (\<open>None\<close>: no image) and
  the prompt shown instead of it, the anonymous switch (title, hint, checked), the push-range
  box, the Push button (label, enabled) and the footer line. The pin of the push-range title
  is the surrogate pair of U+1F4CD.\<close>

record create_view =
  cv_back :: create_event
  cv_title :: jsstr
  cv_location :: jsstr
  cv_category_label :: jsstr
  cv_select :: jsstr
  cv_options :: "(jsstr \<times> jsstr \<times> jsstr) list"
  cv_description_label :: jsstr
  cv_placeholder :: jsstr
  cv_description :: jsstr
  cv_hint :: jsstr
  cv_counter :: jsstr
  cv_photo_label :: jsstr
  cv_preview :: "jsstr option"
  cv_photo_prompt :: "jsstr option"
  cv_anonymous :: "jsstr \<times> jsstr \<times> bool"
  cv_push_range :: "jsstr \<times> jsstr"
  cv_push :: "jsstr \<times> bool"
  cv_footer :: jsstr

definition round_pushpin :: jsstr where
  "round_pushpin = [0xD83D, 0xDCCD]"

definition select_shows :: "jsstr \<Rightarrow> jsstr" where
  "select_shows v =
     (if v = [] then str ''What do you need help with?''
      else case find (\<lambda>c. cat_value c = v) categories of Some c \<Rightarrow> cat_label c | None \<Rightarrow> [])"

definition create_render :: "create_state \<Rightarrow> create_view" where
  "create_render s =
     \<lparr>cv_back = Back_to_home_link,
      cv_title = str ''Create Post'',
      cv_location = str ''Posting to Koramangala, Bangalore'',
      cv_category_label = str ''Category *'',
      cv_select = select_shows (category s),
      cv_options = map (\<lambda>c. (cat_value c, cat_color c, cat_label c)) categories,
      cv_description_label = str ''Description *'',
      cv_placeholder = str ''Describe what you need in detail...'',
      cv_description = description s,
      cv_hint = str ''Be specific and clear about your request'',
      cv_counter = js_nat_string (length (description s)) @ str ''/500'',
      cv_photo_label = str ''Add Photo (Optional)'',
      cv_preview = (if imagePreview s = [] then None else Some (imagePreview s)),
      cv_photo_prompt = (if imagePreview s = [] then Some (str ''Tap to add photo'') else None),
      cv_anonymous = (str ''Post anonymously'', str ''Hide your identity from others'', isAnonymous s),
      cv_push_range = (round_pushpin @ str '' Push Range: 2 km radius'',
                       str ''Your post will reach approximately 50-100 nearby users''),
      cv_push = (str ''Push to Nearby Users'', isFormValid s),
      cv_footer = str ''Your post will be live for 24 hours''\<rparr>"

fun create_run :: "create_state \<Rightarrow> create_event list \<Rightarrow> create_state" where
  "create_run s [] = s"
| "create_run s (e # es) = create_run (fst (create_handle s e)) es"

inductive create_reachable :: "create_state \<Rightarrow> bool" where
  create_start: "create_reachable create_init"
| create_next: "create_reachable s \<Longrightarrow> create_input_ok e \<Longrightarrow> create_reachable (fst (create_handle s e))"

definition is_data_url :: "jsstr \<Rightarrow> bool" where
  "is_data_url u \<longleftrightarrow> take 5 u = str ''data:''"

definition create_inv :: "create_state \<Rightarrow> bool" where
  "create_inv s \<longleftrightarrow>
     length (description s) \<le> 500
   \<and> (category s = [] \<or> category s \<in> set (map cat_value categories))
   \<and> (imagePreview s = [] \<or> is_data_url (imagePreview s))
   \<and> list_all (\<lambda>f. is_data_url (file_dataURL f)) (readers s)"

definition scenario_A :: create_state where
  "scenario_A = create_init\<lparr>category := str ''help'',
     description := str ''Need two people to move a couch''\<rparr>"

definition scenario_B :: create_state where
  "scenario_B = create_init\<lparr>category := [], description := str ''short''\<rparr>"

definition photo_a :: js_file where
  "photo_a = \<lparr>file_name = str ''a.png'', file_dataURL = str ''data:image/png;base64,QQ==''\<rparr>"

definition photo_b :: js_file where
  "photo_b = \<lparr>file_name = str ''b.png'', file_dataURL = str ''data:image/png;base64,Qg==''\<rparr>"

subsection \<open>Submission\<close>

lemma isFormValid_trim_nonempty: "isFormValid s \<Longrightarrow> js_trim (description s) \<noteq> []"
  by (auto simp: isFormValid_def)

lemma handleSubmit_valid:
  "isFormValid s \<Longrightarrow> handleSubmit s = (s, Navigate Router_navigate ''/push-confirmation'')"
  using isFormValid_trim_nonempty [of s] by (simp add: handleSubmit_def isFormValid_def)

lemma push_click_eq:
  "create_handle s Push_click =
     (if isFormValid s then (s, Navigate Router_navigate ''/push-confirmation'') else (s, No_effect))"
  using isFormValid_trim_nonempty [of s]
  by (auto simp: handleSubmit_def isFormValid_def)

subsection \<open>The form invariant\<close>

lemma create_init_inv: "create_inv create_init"
  by (simp add: create_inv_def create_init_def)

lemma list_all_remove_nth: "list_all P xs \<Longrightarrow> list_all P (take i xs @ drop (Suc i) xs)"
  by (auto simp: list_all_iff dest: in_set_takeD in_set_dropD)

lemma reader_onload_inv: "create_inv s \<Longrightarrow> create_inv (reader_onload i s)"
proof -
  assume inv: "create_inv s"
  show ?thesis
  proof (cases "i < length (readers s)")
    case True
    with inv have "is_data_url (file_dataURL (readers s ! i))"
      by (simp add: create_inv_def list_all_length)
    moreover from inv have
      "list_all (\<lambda>f. is_data_url (file_dataURL f)) (take i (readers s) @ drop (Suc i) (readers s))"
      unfolding create_inv_def by (blast intro: list_all_remove_nth)
    ultimately show ?thesis
      using True inv by (simp add: create_inv_def reader_onload_def)
  next
    case False
    with inv show ?thesis by (simp add: reader_onload_def)
  qed
qed

lemma handleImageUpload_inv:
  "create_inv s \<Longrightarrow> create_input_ok (Image_change f) \<Longrightarrow> create_inv (handleImageUpload f s)"
  by (cases f) (simp_all add: create_inv_def handleImageUpload_def is_data_url_def)

lemma create_handle_inv:
  assumes "create_inv s" and "create_input_ok e"
  shows "create_inv (fst (create_handle s e))"
proof (cases e)
  case (Image_change f)
  with assms show ?thesis by (simp add: handleImageUpload_inv)
next
  case (Reader_load i)
  with assms show ?thesis by (simp add: reader_onload_inv)
next
  case Push_click
  with assms show ?thesis by (simp add: handleSubmit_def)
qed (use assms in \<open>simp_all add: create_inv_def\<close>)

lemma create_reachable_inv: "create_reachable s \<Longrightarrow> create_inv s"
proof (induction rule: create_reachable.induct)
  case create_start
  show ?case by (rule create_init_inv)
next
  case (create_next s e)
  from create_next.IH create_next.hyps(2) show ?case by (rule create_handle_inv)
qed

lemma create_run_reachable:
  "create_reachable s \<Longrightarrow> list_all create_input_ok es \<Longrightarrow> create_reachable (create_run s es)"
  by (induction es arbitrary: s) (auto intro: create_next)

lemma scenario_A_valid: "isFormValid scenario_A"
proof -
  have "js_trim (str ''Need two people to move a couch'') = str ''Need two people to move a couch''"
    by (rule js_trim_str) (simp_all add: js_simps)
  then show ?thesis
    by (simp add: isFormValid_def scenario_A_def create_init_def)
qed

lemma scenario_A_valid_record:
  "isFormValid (create_init\<lparr>category := str ''help'', description := str ''Need two people to move a couch''\<rparr>)"
  using scenario_A_valid by (simp add: scenario_A_def)

lemma scenario_B_invalid: "\<not> isFormValid scenario_B"
  by (simp add: isFormValid_def scenario_B_def create_init_def)

text \<open>
  C9. A click on ``Push to Nearby Users'' navigates to \<open>/push-confirmation\<close> exactly
  when the form is valid (a category is chosen and the trimmed description is longer than
  ten code units) and otherwise does nothing; the form state is never changed by it.
\<close>

theorem push_click_iff_valid:
  "create_handle s Push_click =
     (if isFormValid s then (s, Navigate Router_navigate ''/push-confirmation'') else (s, No_effect))"
  by (rule push_click_eq)

theorem push_click_scenarios:
  "create_handle scenario_A Push_click = (scenario_A, Navigate Router_navigate ''/push-confirmation'')
   \<and> create_handle scenario_B Push_click = (scenario_B, No_effect)"
  using push_click_iff_valid [of scenario_A] push_click_iff_valid [of scenario_B]
    scenario_A_valid scenario_B_invalid by simp

text \<open>
  C15. The preview can show a file other than the selected one: choose photo A, then
  photo B, and let B's reader finish before A's. Every reader has then finished, the
  selected image is B, and the preview is A's data URL.
\<close>

theorem stale_preview:
  "create_reachable (create_run create_init
      [Image_change (Some photo_a), Image_change (Some photo_b), Reader_load 1, Reader_load 0])
   \<and> readers (create_run create_init
      [Image_change (Some photo_a), Image_change (Some photo_b), Reader_load 1, Reader_load 0]) = []
   \<and> selectedImage (create_run create_init
      [Image_change (Some photo_a), Image_change (Some photo_b), Reader_load 1, Reader_load 0])
       = Some photo_b
   \<and> imagePreview (create_run create_init
      [Image_change (Some photo_a), Image_change (Some photo_b), Reader_load 1, Reader_load 0])
       = file_dataURL photo_a
   \<and> file_dataURL photo_a \<noteq> file_dataURL photo_b"
proof -
  have ok: "list_all create_input_ok
      [Image_change (Some photo_a), Image_change (Some photo_b), Reader_load 1, Reader_load 0]"
    by (simp add: photo_a_def photo_b_def)
  show ?thesis
    using create_run_reachable [OF create_start ok]
    by (simp add: create_init_def handleImageUpload_def reader_onload_def photo_a_def photo_b_def)
qed

subsection \<open>Uploads whose readers finish in start order\<close>

lemma create_run_append: "create_run s (xs @ ys) = create_run (create_run s xs) ys"
  by (induction xs arbitrary: s) simp_all

lemma create_run_uploads:
  "fs \<noteq> [] \<Longrightarrow> create_run s (map (\<lambda>f. Image_change (Some f)) fs) =
     s\<lparr>selectedImage := Some (last fs), readers := readers s @ fs\<rparr>"
proof (induction fs arbitrary: s)
  case Nil
  then show ?case by simp
next
  case (Cons f fs)
  then show ?case by (cases "fs = []") (simp_all add: handleImageUpload_def)
qed

lemma create_run_loads:
  "readers s = rs \<Longrightarrow> rs \<noteq> [] \<Longrightarrow>
     create_run s (replicate (length rs) (Reader_load 0)) =
       s\<lparr>imagePreview := file_dataURL (last rs), readers := []\<rparr>"
proof (induction rs arbitrary: s)
  case Nil
  then show ?case by simp
next
  case (Cons r rs)
  have "reader_onload 0 s = s\<lparr>imagePreview := file_dataURL r, readers := rs\<rparr>"
    using Cons.prems(1) by (simp add: reader_onload_def)
  with Cons show ?case by (cases "rs = []") simp_all
qed

text \<open>
  C21. Selecting files and letting their readers finish in the order they were started
  shows the last selected file: the selection and the preview agree, and no reader is left
  outstanding. With one file this is the round trip from the file input to the rendered
  preview. (\<open>stale_preview\<close> shows that the other completion order breaks it.)
\<close>

theorem upload_preview_roundtrip:
  assumes "readers s = []" and "fs \<noteq> []"
  shows "create_run s (map (\<lambda>f. Image_change (Some f)) fs @ replicate (length fs) (Reader_load 0)) =
           s\<lparr>selectedImage := Some (last fs), imagePreview := file_dataURL (last fs)\<rparr>"
proof -
  let ?u = "create_run s (map (\<lambda>f. Image_change (Some f)) fs)"
  have u: "?u = s\<lparr>selectedImage := Some (last fs), readers := fs\<rparr>"
    using create_run_uploads [OF assms(2)] assms(1) by simp
  then have "readers ?u = fs" by simp
  from create_run_loads [OF this assms(2)] u assms(1) show ?thesis
    by (simp add: create_run_append)
qed

theorem upload_preview_roundtrip_witness:
  "readers create_init = [] \<and> [photo_a, photo_b] \<noteq> []
   \<and> cv_preview (create_render (create_run create_init
        [Image_change (Some photo_a), Image_change (Some photo_b), Reader_load 0, Reader_load 0]))
       = Some (file_dataURL photo_b)"
proof -
  have "create_run create_init
        [Image_change (Some photo_a), Image_change (Some photo_b), Reader_load 0, Reader_load 0]
      = create_init\<lparr>selectedImage := Some photo_b, imagePreview := file_dataURL photo_b\<rparr>"
    using upload_preview_roundtrip [of create_init "[photo_a, photo_b]"]
    by (simp add: create_init_def numeral_2_eq_2)
  then show ?thesis
    by (simp add: create_render_def create_init_def photo_b_def)
qed

end
