(* ===== verification/Keyed_List.thy ===== *)
theory Keyed_List
  imports Prelude
begin

text \<open>
  The list-mutation pattern the screens share (spec section 4.2): an ordered list of
  records with an identifier, replaced wholesale by \<open>filter\<close> or \<open>map\<close> on each
  change. \<open>key\<close> is the identifier field. The abstract view of such a list is the
  partial map \<open>store_of key xs\<close> from identifiers to records (the first record with
  that identifier, as a lookup by \<open>find\<close> would return). The three operations of the
  spec are \<open>remove_by_key\<close>, \<open>update_by_key\<close> and \<open>update_every\<close>; the screens'
  handlers are shown to be instances of them, and the lemmas below are the contract the
  screens' proofs use: order kept, size kept or decreased by the number of matches, and
  refinement of the map operations \<open>m(k := None)\<close> and \<open>m(k \<mapsto> f v)\<close>.
\<close>

definition store_of :: "('a \<Rightarrow> 'k) \<Rightarrow> 'a list \<Rightarrow> ('k \<rightharpoonup> 'a)" where
  "store_of key xs = map_of (map (\<lambda>x. (key x, x)) xs)"

definition remove_by_key :: "('a \<Rightarrow> 'k) \<Rightarrow> 'k \<Rightarrow> 'a list \<Rightarrow> 'a list" where
  "remove_by_key key k xs = filter (\<lambda>x. key x \<noteq> k) xs"

definition update_by_key :: "('a \<Rightarrow> 'k) \<Rightarrow> 'k \<Rightarrow> ('a \<Rightarrow> 'a) \<Rightarrow> 'a list \<Rightarrow> 'a list" where
  "update_by_key key k f xs = map (\<lambda>x. if key x = k then f x else x) xs"

definition update_every :: "('a \<Rightarrow> 'a) \<Rightarrow> 'a list \<Rightarrow> 'a list" where
  "update_every f xs = map f xs"

definition keeps_key :: "('a \<Rightarrow> 'k) \<Rightarrow> ('a \<Rightarrow> 'a) \<Rightarrow> bool" where
  "keeps_key key f \<longleftrightarrow> (\<forall>x. key (f x) = key x)"

subsection \<open>Removal\<close>

lemma remove_by_key_subseq: "subseq (remove_by_key key k xs) xs"
  by (simp add: remove_by_key_def)

lemma remove_by_key_gone: "k \<notin> key ` set (remove_by_key key k xs)"
  by (auto simp: remove_by_key_def)

lemma remove_by_key_absent: "k \<notin> key ` set xs \<Longrightarrow> remove_by_key key k xs = xs"
  by (auto simp: remove_by_key_def filter_id_conv)

lemma length_remove_by_key_count:
  "length (remove_by_key key k xs) + count_list (map key xs) k = length xs"
  by (induction xs) (auto simp: remove_by_key_def)

lemma length_remove_by_key:
  "length (remove_by_key key k xs) = length xs - count_list (map key xs) k"
  using length_remove_by_key_count [of key k xs] by arith

lemma count_list_distinct:
  "distinct ys \<Longrightarrow> count_list ys k = (if k \<in> set ys then 1 else 0)"
  by (induction ys) auto

lemma length_remove_by_key_distinct:
  "distinct (map key xs) \<Longrightarrow> k \<in> key ` set xs \<Longrightarrow>
     length (remove_by_key key k xs) = length xs - 1"
  by (simp add: length_remove_by_key count_list_distinct)

lemma filter_key_distinct:
  "distinct (map key xs) \<Longrightarrow> i < length xs \<Longrightarrow> filter (\<lambda>x. key x = key (xs ! i)) xs = [xs ! i]"
proof (induction xs arbitrary: i)
  case Nil
  then show ?case by simp
next
  case (Cons y ys)
  show ?case
  proof (cases i)
    case 0
    with Cons.prems(1) have "filter (\<lambda>x. key x = key y) ys = []"
      by (auto simp: filter_empty_conv) (metis image_eqI)
    with 0 show ?thesis by simp
  next
    case (Suc j)
    with Cons.prems have "key y \<noteq> key (ys ! j)" and "j < length ys"
      by (auto simp: nth_mem)
    with Suc Cons.prems Cons.IH [of j] show ?thesis by simp
  qed
qed

lemma store_of_remove_by_key:
  "store_of key (remove_by_key key k xs) = (store_of key xs)(k := None)"
  by (induction xs) (auto simp: store_of_def remove_by_key_def fun_eq_iff)

subsection \<open>Update of one record and of all records\<close>

lemma length_update_by_key [simp]: "length (update_by_key key k f xs) = length xs"
  by (simp add: update_by_key_def)

lemma keys_update_by_key:
  "keeps_key key f \<Longrightarrow> map key (update_by_key key k f xs) = map key xs"
  by (simp add: update_by_key_def keeps_key_def)

lemma update_by_key_nth:
  "i < length xs \<Longrightarrow>
     update_by_key key k f xs ! i = (if key (xs ! i) = k then f (xs ! i) else xs ! i)"
  by (simp add: update_by_key_def)

lemma store_of_update_by_key:
  "keeps_key key f \<Longrightarrow>
     store_of key (update_by_key key k f xs) = (store_of key xs)(k := map_option f (store_of key xs k))"
  by (induction xs) (auto simp: store_of_def update_by_key_def keeps_key_def fun_eq_iff)

lemma update_by_key_absent: "k \<notin> key ` set xs \<Longrightarrow> update_by_key key k f xs = xs"
  by (induction xs) (auto simp: update_by_key_def)

lemma keys_update_every:
  "keeps_key key f \<Longrightarrow> map key (update_every f xs) = map key xs"
  by (simp add: update_every_def keeps_key_def)

lemma store_of_update_every:
  "keeps_key key f \<Longrightarrow> store_of key (update_every f xs) = map_option f \<circ> store_of key xs"
  by (induction xs) (auto simp: store_of_def update_every_def keeps_key_def fun_eq_iff)

end
