(* ===== verification/Feed.thy ===== *)
theory Feed
  imports Prelude Keyed_List
begin

text \<open>
  The home feed, \<^verbatim>\<open>src/client/pages/Home.tsx\<close>. \<open>post\<close> is the \<open>Post\<close>
  interface (the optional \<open>isAnonymous\<close> is a \<open>bool option\<close>, \<open>None\<close> for
  \<open>undefined\<close>), \<open>mockPosts\<close> the seeded feed, \<open>home_state\<close> the one
  \<open>useState\<close> hook. The three handlers are \<open>handleInterested\<close>,
  \<open>handleIgnore\<close> and \<open>handlePushAgain\<close>; \<open>home_handle\<close> is what the rendered
  controls do: a click on a button of the \<open>i\<close>-th rendered card passes that card's
  \<open>id\<close> to its handler, and a click on a card that is not rendered does nothing.
  \<open>render_post\<close> is what one card shows.
\<close>

datatype category = Help | Work | Services | Alert

record post =
  post_id :: jsstr
  post_userName :: jsstr
  post_userAvatar :: jsstr
  post_location :: jsstr
  post_category :: category
  post_timeAgo :: jsstr
  post_description :: jsstr
  post_isAnonymous :: "bool option"

definition mockPosts :: "post list" where
  "mockPosts =
    [\<lparr>post_id = str ''1'', post_userName = str ''Priya Sharma'',
      post_userAvatar = str ''/placeholder.svg'', post_location = str ''0.2 km away'',
      post_category = Help, post_timeAgo = str ''2 minutes ago'',
      post_description = str ''Need help moving furniture to my new apartment. Looking for 2-3 people who can help for 2 hours. Will provide snacks and drinks!'',
      post_isAnonymous = None\<rparr>,
     \<lparr>post_id = str ''2'', post_userName = str ''Anonymous User'',
      post_userAvatar = str ''/placeholder.svg'', post_location = str ''0.5 km away'',
      post_category = Alert, post_timeAgo = str ''15 minutes ago'',
      post_description = str ''Lost golden retriever near Central Park. Goes by the name Max. Please contact if found. Reward offered.'',
      post_isAnonymous = Some True\<rparr>,
     \<lparr>post_id = str ''3'', post_userName = str ''Rohit Kumar'',
      post_userAvatar = str ''/placeholder.svg'', post_location = str ''0.8 km away'',
      post_category = Services, post_timeAgo = str ''1 hour ago'',
      post_description = str ''Professional house cleaning services available. 5 years experience. Reasonable rates. Contact for booking.'',
      post_isAnonymous = None\<rparr>,
     \<lparr>post_id = str ''4'', post_userName = str ''Meera Patel'',
      post_userAvatar = str ''/placeholder.svg'', post_location = str ''1.2 km away'',
      post_category = Work, post_timeAgo = str ''3 hours ago'',
      post_description = str ''Looking for a freelance graphic designer for social media posts. Budget: ''
        @ [0x20B9] @ str ''5000-8000 per month. Portfolio required.'',
      post_isAnonymous = None\<rparr>]"

fun category_label :: "category \<Rightarrow> jsstr" where
  "category_label Help = str ''Help''"
| "category_label Work = str ''Work''"
| "category_label Services = str ''Services''"
| "category_label Alert = str ''Alert''"

fun categoryColors :: "category \<Rightarrow> jsstr" where
  "categoryColors Help = str ''bg-blue-100 text-blue-800''"
| "categoryColors Work = str ''bg-green-100 text-green-800''"
| "categoryColors Services = str ''bg-purple-100 text-purple-800''"
| "categoryColors Alert = str ''bg-red-100 text-red-800''"

record home_state =
  posts :: "post list"

definition home_init :: home_state where
  "home_init = \<lparr>posts = mockPosts\<rparr>"

definition handleInterested :: "jsstr \<Rightarrow> effect" where
  "handleInterested postId = Console_log (str ''Interested in post: '' @ postId)"

definition handleIgnore :: "jsstr \<Rightarrow> home_state \<Rightarrow> home_state" where
  "handleIgnore postId s = s\<lparr>posts := filter (\<lambda>p. post_id p \<noteq> postId) (posts s)\<rparr>"

definition handlePushAgain :: "jsstr \<Rightarrow> effect" where
  "handlePushAgain postId = Console_log (str ''Push again: '' @ postId)"

datatype home_event =
    Notifications_icon_link
  | Profile_avatar_link
  | Create_post_button_link
  | Interested_click nat
  | Ignore_click nat
  | Push_again_click nat
  | Load_more_click
  | Home_tab_link
  | Create_tab_link
  | Alerts_tab_link
  | Profile_tab_link

fun home_handle :: "home_state \<Rightarrow> home_event \<Rightarrow> home_state \<times> effect" where
  "home_handle s Notifications_icon_link = (s, Navigate Router_link ''/notifications'')"
| "home_handle s Profile_avatar_link = (s, Navigate Router_link ''/profile'')"
| "home_handle s Create_post_button_link = (s, Navigate Router_link ''/create-post'')"
| "home_handle s (Interested_click i) =
     (if i < length (posts s) then (s, handleInterested (post_id (posts s ! i)))
      else (s, No_effect))"
| "home_handle s (Ignore_click i) =
     (if i < length (posts s) then (handleIgnore (post_id (posts s ! i)) s, No_effect)
      else (s, No_effect))"
| "home_handle s (Push_again_click i) =
     (if i < length (posts s) then (s, handlePushAgain (post_id (posts s ! i)))
      else (s, No_effect))"
| "home_handle s Load_more_click = (s, No_effect)"
| "home_handle s Home_tab_link = (s, Navigate Router_link ''/home'')"
| "home_handle s Create_tab_link = (s, Navigate Router_link ''/create-post'')"
| "home_handle s Alerts_tab_link = (s, Navigate Router_link ''/notifications'')"
| "home_handle s Profile_tab_link = (s, Navigate Router_link ''/profile'')"

text \<open>One rendered card: the avatar image and its fallback text, the name line, the
  location and time, the category badge and its colour class, the description.\<close>

record post_card =
  card_avatar_src :: jsstr
  card_avatar_fallback :: jsstr
  card_name :: jsstr
  card_location :: jsstr
  card_time :: jsstr
  card_badge :: jsstr
  card_badge_class :: jsstr
  card_text :: jsstr

definition render_post :: "post \<Rightarrow> post_card" where
  "render_post p =
     \<lparr>card_avatar_src = post_userAvatar p,
      card_avatar_fallback =
        (if post_isAnonymous p = Some True then str ''?'' else take 1 (post_userName p)),
      card_name =
        (if post_isAnonymous p = Some True then str ''Anonymous User'' else post_userName p),
      card_location = post_location p,
      card_time = post_timeAgo p,
      card_badge = category_label (post_category p),
      card_badge_class = categoryColors (post_category p) @ str '' font-medium'',
      card_text = post_description p\<rparr>"

definition home_render :: "home_state \<Rightarrow> post_card list" where
  "home_render s = map render_post (posts s)"

text \<open>The whole page: the header (title, the fixed location label of the stubbed
  geolocation, the bell with its dot and the avatar with fallback \<open>U\<close>, both links), the
  create button, the cards, the Load more button and the bottom navigation, each action with
  its label and event. The bell's dot is drawn unconditionally.\<close>

record home_view =
  hv_title :: jsstr
  hv_location :: jsstr
  hv_bell :: "home_event \<times> bool"
  hv_avatar :: "home_event \<times> jsstr"
  hv_create :: "jsstr \<times> home_event"
  hv_cards :: "post_card list"
  hv_load_more :: "jsstr \<times> home_event"
  hv_tabs :: "(jsstr \<times> home_event) list"

definition home_page :: "home_state \<Rightarrow> home_view" where
  "home_page s =
     \<lparr>hv_title = str ''Bartr'',
      hv_location = str ''Koramangala, Bangalore'',
      hv_bell = (Notifications_icon_link, True),
      hv_avatar = (Profile_avatar_link, str ''U''),
      hv_create = (str ''What do you need today?'', Create_post_button_link),
      hv_cards = home_render s,
      hv_load_more = (str ''Load more posts'', Load_more_click),
      hv_tabs = [(str ''Home'', Home_tab_link), (str ''Create'', Create_tab_link),
                 (str ''Alerts'', Alerts_tab_link), (str ''Profile'', Profile_tab_link)]\<rparr>"

inductive home_reachable :: "home_state \<Rightarrow> bool" where
  home_start: "home_reachable home_init"
| home_next: "home_reachable s \<Longrightarrow> home_reachable (fst (home_handle s e))"

subsection \<open>The feed as a keyed list\<close>

lemma handleIgnore_remove_by_key:
  "posts (handleIgnore k s) = remove_by_key post_id k (posts s)"
  by (simp add: handleIgnore_def remove_by_key_def)

lemma home_handle_posts:
  "posts (fst (home_handle s e)) =
     (case e of Ignore_click i \<Rightarrow>
        if i < length (posts s) then remove_by_key post_id (post_id (posts s ! i)) (posts s)
        else posts s
      | _ \<Rightarrow> posts s)"
  by (cases e) (simp_all add: handleIgnore_remove_by_key)

lemma mockPosts_ids: "map post_id mockPosts = [str ''1'', str ''2'', str ''3'', str ''4'']"
  by (simp add: mockPosts_def)

lemma distinct_mockPosts_ids: "distinct (map post_id mockPosts)"
  by (simp add: mockPosts_ids)

lemma home_step_subseq:
  "subseq (posts (fst (home_handle s e))) (posts s)"
  by (simp add: home_handle_posts remove_by_key_subseq split: home_event.split)

lemma home_step_distinct:
  "distinct (map post_id (posts s)) \<Longrightarrow> distinct (map post_id (posts (fst (home_handle s e))))"
  by (simp add: home_handle_posts remove_by_key_def distinct_map_filter split: home_event.split)

lemma home_reachable_inv:
  assumes "home_reachable s"
  shows "subseq (posts s) mockPosts \<and> distinct (map post_id (posts s))"
  using assms
proof (induction rule: home_reachable.induct)
  case home_start
  show ?case by (simp add: home_init_def distinct_mockPosts_ids)
next
  case (home_next s e)
  then show ?case
    using home_step_subseq [of s e] home_step_distinct [of s e]
    by (blast intro: subseq_order.trans)
qed

text \<open>
  C10. Dismissing the \<open>i\<close>-th card of a feed with distinct ids removes exactly one post,
  keeps the order of the others, and refines deletion of that id from the map of posts.
\<close>

theorem home_ignore_card:
  assumes "distinct (map post_id (posts s))" and "i < length (posts s)"
  shows "length (posts (fst (home_handle s (Ignore_click i)))) = length (posts s) - 1
       \<and> subseq (posts (fst (home_handle s (Ignore_click i)))) (posts s)
       \<and> store_of post_id (posts (fst (home_handle s (Ignore_click i)))) =
           (store_of post_id (posts s))(post_id (posts s ! i) := None)"
proof -
  have mem: "post_id (posts s ! i) \<in> post_id ` set (posts s)"
    using assms(2) by simp
  show ?thesis
    using assms(2) length_remove_by_key_distinct [OF assms(1) mem]
    by (simp add: handleIgnore_remove_by_key remove_by_key_subseq store_of_remove_by_key)
qed

theorem home_ignore_card_witness:
  "distinct (map post_id (posts home_init)) \<and> (1::nat) < length (posts home_init) \<and>
   length (posts (fst (home_handle home_init (Ignore_click 1)))) = 3"
proof -
  have d: "distinct (map post_id (posts home_init))"
    by (simp add: home_init_def distinct_mockPosts_ids)
  have l: "(1::nat) < length (posts home_init)"
    by (simp add: home_init_def mockPosts_def)
  have "length (posts home_init) = 4"
    by (simp add: home_init_def mockPosts_def)
  with home_ignore_card [OF d l] d l show ?thesis
    by simp
qed

text \<open>
  C13. The feed is never re-fetched or re-ordered: every reachable feed is a subsequence
  of the seeded \<open>mockPosts\<close>, and its ids stay distinct.
\<close>

theorem home_reachable_subseq:
  assumes "home_reachable s"
  shows "subseq (posts s) mockPosts \<and> distinct (map post_id (posts s))"
  using assms by (rule home_reachable_inv)

theorem home_reachable_subseq_witness:
  "home_reachable (fst (home_handle home_init (Ignore_click 0))) \<and>
   subseq (posts (fst (home_handle home_init (Ignore_click 0)))) mockPosts"
proof -
  have r: "home_reachable (fst (home_handle home_init (Ignore_click 0)))"
    by (rule home_next [OF home_start])
  from home_reachable_subseq [OF r] r show ?thesis by simp
qed

end
