(* ===== verification/Notifications.thy ===== *)
theory Notifications
  imports Prelude Keyed_List
begin

text \<open>
  The notifications screen, \<^verbatim>\<open>src/client/pages/Notifications.tsx\<close>.
  \<open>notification\<close> is the \<open>Notification\<close> interface (optional fields are options),
  \<open>mockNotifications\<close> the seeded list, \<open>notif_state\<close> the one \<open>useState\<close>
  hook. \<open>markAsRead\<close>, \<open>markAllAsRead\<close> and \<open>unreadCount\<close> are the component's
  functions; \<open>notif_handle\<close> is what its controls do: the back link, the ``Mark all
  read'' button (rendered only while \<open>unreadCount > 0\<close>) and the click on the
  \<open>i\<close>-th card, whose handler is \<open>!notification.isRead && markAsRead(id)\<close>.
  \<open>render_notification\<close> is what one card shows.
\<close>

datatype notif_type = Response | Interested | System

record notification =
  notif_id :: jsstr
  notif_type :: notif_type
  notif_title :: jsstr
  notif_description :: jsstr
  notif_timeAgo :: jsstr
  isRead :: bool
  notif_userAvatar :: "jsstr option"
  notif_userName :: "jsstr option"
  postCategory :: "jsstr option"

definition mockNotifications :: "notification list" where
  "mockNotifications =
    [\<lparr>notif_id = str ''1'', notif_type = Response,
      notif_title = str ''New Response to Your Help Request'',
      notif_description = str ''Rahul Kumar responded to your furniture moving request'',
      notif_timeAgo = str ''2 minutes ago'', isRead = False,
      notif_userAvatar = Some (str ''/placeholder.svg''), notif_userName = Some (str ''Rahul Kumar''),
      postCategory = Some (str ''Help'')\<rparr>,
     \<lparr>notif_id = str ''2'', notif_type = Interested,
      notif_title = str ''3 People Interested'',
      notif_description = str ''Multiple users showed interest in your graphic design work post'',
      notif_timeAgo = str ''1 hour ago'', isRead = False,
      notif_userAvatar = None, notif_userName = None, postCategory = Some (str ''Work'')\<rparr>,
     \<lparr>notif_id = str ''3'', notif_type = Response,
      notif_title = str ''Response to Alert'',
      notif_description = str ''Someone found information about your lost dog Max'',
      notif_timeAgo = str ''3 hours ago'', isRead = True,
      notif_userAvatar = Some (str ''/placeholder.svg''), notif_userName = Some (str ''Priya Sharma''),
      postCategory = Some (str ''Alert'')\<rparr>,
     \<lparr>notif_id = str ''4'', notif_type = System,
      notif_title = str ''Post Expired'',
      notif_description = str ''Your house cleaning services post has expired after 24 hours'',
      notif_timeAgo = str ''1 day ago'', isRead = True,
      notif_userAvatar = None, notif_userName = None, postCategory = Some (str ''Services'')\<rparr>,
     \<lparr>notif_id = str ''5'', notif_type = Interested,
      notif_title = str ''High Interest!'',
      notif_description = str ''8 users are interested in your tutoring services'',
      notif_timeAgo = str ''2 days ago'', isRead = True,
      notif_userAvatar = None, notif_userName = None, postCategory = Some (str ''Services'')\<rparr>]"

datatype notif_icon = Message_circle | Thumbs_up | Clock_icon

fun getNotificationIcon :: "notif_type \<Rightarrow> notif_icon" where
  "getNotificationIcon Response = Message_circle"
| "getNotificationIcon Interested = Thumbs_up"
| "getNotificationIcon System = Clock_icon"

record notif_state =
  notifications :: "notification list"

definition notif_init :: notif_state where
  "notif_init = \<lparr>notifications = mockNotifications\<rparr>"

definition markAsRead :: "jsstr \<Rightarrow> notif_state \<Rightarrow> notif_state" where
  "markAsRead notificationId s =
     s\<lparr>notifications := map (\<lambda>n. if notif_id n = notificationId then n\<lparr>isRead := True\<rparr> else n)
                          (notifications s)\<rparr>"

definition markAllAsRead :: "notif_state \<Rightarrow> notif_state" where
  "markAllAsRead s = s\<lparr>notifications := map (\<lambda>n. n\<lparr>isRead := True\<rparr>) (notifications s)\<rparr>"

definition unreadCount :: "notif_state \<Rightarrow> nat" where
  "unreadCount s = length (filter (\<lambda>n. \<not> isRead n) (notifications s))"

datatype notif_event =
    Back_home_link
  | Mark_all_click
  | Card_click nat
  | View_response_click nat
  | Message_user_click nat

definition card_onClick :: "nat \<Rightarrow> notif_state \<Rightarrow> notif_state" where
  "card_onClick i s =
     (if i < length (notifications s) \<and> \<not> isRead (notifications s ! i)
      then markAsRead (notif_id (notifications s ! i)) s else s)"

fun notif_handle :: "notif_state \<Rightarrow> notif_event \<Rightarrow> notif_state \<times> effect" where
  "notif_handle s Back_home_link = (s, Navigate Router_link ''/home'')"
| "notif_handle s Mark_all_click =
     (if 0 < unreadCount s then (markAllAsRead s, No_effect) else (s, No_effect))"
| "notif_handle s (Card_click i) = (card_onClick i s, No_effect)"
| "notif_handle s (View_response_click i) = (card_onClick i s, No_effect)"
| "notif_handle s (Message_user_click i) = (card_onClick i s, No_effect)"

text \<open>
  The two action buttons of a response card have no handler of their own; a click on
  them bubbles to the card's \<open>onClick\<close>, which is why their events are card clicks.
\<close>

record notif_card =
  nc_highlighted :: bool
  nc_avatar :: "jsstr option"
  nc_icon :: "notif_icon option"
  nc_badge :: "jsstr option"
  nc_unread_dot :: bool
  nc_actions :: bool

definition render_notification :: "notification \<Rightarrow> notif_card" where
  "render_notification n =
     \<lparr>nc_highlighted = \<not> isRead n,
      nc_avatar = notif_userAvatar n,
      nc_icon = (if notif_userAvatar n = None then Some (getNotificationIcon (notif_type n)) else None),
      nc_badge = postCategory n,
      nc_unread_dot = \<not> isRead n,
      nc_actions = (notif_type n = Response \<and> \<not> isRead n)\<rparr>"

record notif_header =
  nh_unread_line :: "nat option"
  nh_mark_all_shown :: bool
  nh_empty_message :: bool

text \<open>The header line \<open>{unreadCount} unread\<close> is kept as the number it prints.\<close>

definition render_header :: "notif_state \<Rightarrow> notif_header" where
  "render_header s =
     \<lparr>nh_unread_line = (if 0 < unreadCount s then Some (unreadCount s) else None),
      nh_mark_all_shown = (0 < unreadCount s),
      nh_empty_message = (notifications s = [])\<rparr>"

inductive notif_reachable :: "notif_state \<Rightarrow> bool" where
  notif_start: "notif_reachable notif_init"
| notif_next: "notif_reachable s \<Longrightarrow> notif_reachable (fst (notif_handle s e))"

text \<open>Two notification lists agree but for read flags that only went from unread to read.\<close>

definition read_later :: "notification list \<Rightarrow> notification list \<Rightarrow> bool" where
  "read_later xs ys \<longleftrightarrow>
     list_all2 (\<lambda>m n. m\<lparr>isRead := True\<rparr> = n\<lparr>isRead := True\<rparr> \<and> (isRead m \<longrightarrow> isRead n)) xs ys"

subsection \<open>The list operations as keyed-list operations\<close>

definition set_read :: "notification \<Rightarrow> notification" where
  "set_read n = n\<lparr>isRead := True\<rparr>"

lemma keeps_key_set_read [simp]: "keeps_key notif_id set_read"
  by (simp add: keeps_key_def set_read_def)

lemma markAsRead_update_by_key:
  "notifications (markAsRead k s) = update_by_key notif_id k set_read (notifications s)"
  by (simp add: markAsRead_def update_by_key_def set_read_def)

lemma markAllAsRead_update_every:
  "notifications (markAllAsRead s) = update_every set_read (notifications s)"
  by (simp add: markAllAsRead_def update_every_def set_read_def)

lemma unread_update_by_key_count:
  "length (filter (\<lambda>n. \<not> isRead n) (update_by_key notif_id k set_read xs))
     + length (filter (\<lambda>n. notif_id n = k \<and> \<not> isRead n) xs)
   = length (filter (\<lambda>n. \<not> isRead n) xs)"
  by (induction xs) (auto simp: update_by_key_def set_read_def)

lemma unread_update_every: "filter (\<lambda>n. \<not> isRead n) (update_every set_read xs) = []"
  by (simp add: update_every_def set_read_def filter_empty_conv)

lemma read_later_refl: "read_later xs xs"
  by (simp add: read_later_def list_all2_conv_all_nth)

lemma read_later_trans: "read_later xs ys \<Longrightarrow> read_later ys zs \<Longrightarrow> read_later xs zs"
  by (auto simp: read_later_def list_all2_conv_all_nth)

lemma read_later_map_set_read:
  "read_later xs (map (\<lambda>n. if P n then set_read n else n) xs)"
  by (simp add: read_later_def list_all2_conv_all_nth set_read_def)

lemma notif_handle_read_later:
  "read_later (notifications s) (notifications (fst (notif_handle s e)))"
proof -
  have upd: "read_later xs (update_by_key notif_id k set_read xs)" for xs k
    using read_later_map_set_read [of xs "\<lambda>n. notif_id n = k"] by (simp add: update_by_key_def)
  have all: "read_later xs (update_every set_read xs)" for xs
    using read_later_map_set_read [of xs "\<lambda>n. True"] by (simp add: update_every_def)
  show ?thesis
    by (cases e) (auto simp: card_onClick_def markAsRead_update_by_key markAllAsRead_update_every
        upd all read_later_refl)
qed

lemma read_later_unread_le:
  "read_later xs ys \<Longrightarrow>
     length (filter (\<lambda>n. \<not> isRead n) ys) \<le> length (filter (\<lambda>n. \<not> isRead n) xs)"
  unfolding read_later_def by (induction rule: list_all2_induct) auto

lemma mockNotifications_ids:
  "map notif_id mockNotifications = [str ''1'', str ''2'', str ''3'', str ''4'', str ''5'']"
  by (simp add: mockNotifications_def)

lemma unreadCount_init: "unreadCount notif_init = 2"
  by (simp add: unreadCount_def notif_init_def mockNotifications_def)

lemma notif_reachable_inv:
  assumes "notif_reachable s"
  shows "read_later mockNotifications (notifications s) \<and> unreadCount s \<le> 2"
proof -
  from assms have r: "read_later mockNotifications (notifications s)"
  proof (induction rule: notif_reachable.induct)
    case notif_start
    show ?case by (simp add: notif_init_def read_later_refl)
  next
    case (notif_next s e)
    then show ?case by (blast intro: read_later_trans notif_handle_read_later)
  qed
  then have "unreadCount s \<le> unreadCount notif_init"
    by (simp add: unreadCount_def notif_init_def read_later_unread_le)
  with r unreadCount_init show ?thesis by simp
qed

text \<open>
  C4. ``Mark all read'' leaves no unread notification, keeps every notification with its
  id and position, and changes nothing but read flags, from unread to read.
\<close>

theorem mark_all_read:
  "unreadCount (fst (notif_handle s Mark_all_click)) = 0
   \<and> map notif_id (notifications (fst (notif_handle s Mark_all_click))) = map notif_id (notifications s)
   \<and> read_later (notifications s) (notifications (fst (notif_handle s Mark_all_click)))"
proof -
  have ids: "map notif_id (notifications (fst (notif_handle s Mark_all_click))) = map notif_id (notifications s)"
    by (simp add: markAllAsRead_update_every keys_update_every)
  have "unreadCount (fst (notif_handle s Mark_all_click)) = 0"
    by (simp add: unreadCount_def markAllAsRead_update_every unread_update_every)
  with ids notif_handle_read_later [of s Mark_all_click] show ?thesis by simp
qed

theorem mark_all_read_scenario:
  "length (notifications notif_init) = 5 \<and> unreadCount notif_init = 2
   \<and> length (notifications (fst (notif_handle notif_init Mark_all_click))) = 5
   \<and> unreadCount (fst (notif_handle notif_init Mark_all_click)) = 0
   \<and> map notif_id (notifications (fst (notif_handle notif_init Mark_all_click))) = map notif_id mockNotifications"
proof -
  have "length (notifications notif_init) = 5"
    by (simp add: notif_init_def mockNotifications_def)
  moreover have "map notif_id (notifications notif_init) = map notif_id mockNotifications"
    by (simp add: notif_init_def)
  ultimately show ?thesis
    using mark_all_read [of notif_init] unreadCount_init length_map [of notif_id]
    by (metis length_map)
qed

text \<open>
  C11. Clicking an unread card of a list with distinct ids marks exactly that
  notification read: the unread count drops by one, the card loses its highlight and its
  response actions, and ids and order are unchanged.
\<close>

theorem card_click_marks_one:
  assumes "distinct (map notif_id (notifications s))" and "i < length (notifications s)"
    and "\<not> isRead (notifications s ! i)"
  shows "unreadCount (fst (notif_handle s (Card_click i))) = unreadCount s - 1
       \<and> isRead (notifications (fst (notif_handle s (Card_click i))) ! i)
       \<and> \<not> nc_actions (render_notification (notifications (fst (notif_handle s (Card_click i))) ! i))
       \<and> \<not> nc_highlighted (render_notification (notifications (fst (notif_handle s (Card_click i))) ! i))
       \<and> map notif_id (notifications (fst (notif_handle s (Card_click i)))) = map notif_id (notifications s)"
proof -
  let ?xs = "notifications s" and ?k = "notif_id (notifications s ! i)"
  have one: "filter (\<lambda>n. notif_id n = ?k \<and> \<not> isRead n) ?xs = [?xs ! i]"
  proof -
    have "filter (\<lambda>n. notif_id n = ?k \<and> \<not> isRead n) ?xs
          = filter (\<lambda>n. \<not> isRead n) (filter (\<lambda>n. notif_id n = ?k) ?xs)"
      by (simp add: conj_commute)
    also have "\<dots> = [?xs ! i]"
      using filter_key_distinct [OF assms(1,2)] assms(3) by simp
    finally show ?thesis .
  qed
  have s': "notifications (fst (notif_handle s (Card_click i))) = update_by_key notif_id ?k set_read ?xs"
    using assms(2,3) by (simp add: card_onClick_def markAsRead_update_by_key)
  have cnt: "unreadCount (fst (notif_handle s (Card_click i))) = unreadCount s - 1"
    using unread_update_by_key_count [of ?k ?xs] one s' by (simp add: unreadCount_def)
  have ith: "notifications (fst (notif_handle s (Card_click i))) ! i = set_read (?xs ! i)"
    using s' assms(2) by (simp add: update_by_key_nth)
  show ?thesis
    using cnt ith s' keys_update_by_key [OF keeps_key_set_read]
    by (simp add: render_notification_def set_read_def)
qed

theorem card_click_marks_one_witness:
  "distinct (map notif_id (notifications notif_init)) \<and> (0::nat) < length (notifications notif_init)
   \<and> \<not> isRead (notifications notif_init ! 0)
   \<and> unreadCount (fst (notif_handle notif_init (Card_click 0))) = 1"
proof -
  have d: "distinct (map notif_id (notifications notif_init))"
    by (simp add: notif_init_def mockNotifications_ids)
  have l: "(0::nat) < length (notifications notif_init)"
    by (simp add: notif_init_def mockNotifications_def)
  have u: "\<not> isRead (notifications notif_init ! 0)"
    by (simp add: notif_init_def mockNotifications_def)
  from card_click_marks_one [OF d l u] d l u unreadCount_init show ?thesis by simp
qed

text \<open>
  C14. Notifications are never removed, added or re-ordered, and their read flags only go
  from unread to read: every reachable list agrees with \<open>mockNotifications\<close> up to read
  flags that were set, so at most the two seeded unread notifications are unread.
\<close>

theorem notif_reachable_read_later:
  assumes "notif_reachable s"
  shows "read_later mockNotifications (notifications s) \<and> unreadCount s \<le> 2"
  using assms by (rule notif_reachable_inv)

theorem notif_reachable_read_later_witness:
  "notif_reachable (fst (notif_handle notif_init Mark_all_click))
   \<and> unreadCount (fst (notif_handle notif_init Mark_all_click)) \<le> 2"
proof -
  have r: "notif_reachable (fst (notif_handle notif_init Mark_all_click))"
    by (rule notif_next [OF notif_start])
  from notif_reachable_read_later [OF r] r show ?thesis by simp
qed

text \<open>
  C24. The header agrees with the cards in every state: it prints \<open>k unread\<close> exactly
  when \<open>k > 0\<close> cards are highlighted, shows Mark all read exactly when some card is
  highlighted, and every card offering the response actions is highlighted and carries the
  unread dot.
\<close>

theorem header_matches_cards:
  "nh_unread_line (render_header s) =
     (if list_ex nc_highlighted (map render_notification (notifications s))
      then Some (length (filter nc_highlighted (map render_notification (notifications s))))
      else None)
   \<and> nh_mark_all_shown (render_header s) = list_ex nc_highlighted (map render_notification (notifications s))
   \<and> list_all (\<lambda>c. nc_actions c \<longrightarrow> nc_highlighted c \<and> nc_unread_dot c)
       (map render_notification (notifications s))"
proof -
  have k: "length (filter nc_highlighted (map render_notification (notifications s))) = unreadCount s"
    by (simp add: unreadCount_def filter_map comp_def render_notification_def)
  have e: "list_ex nc_highlighted (map render_notification (notifications s)) \<longleftrightarrow> 0 < unreadCount s"
    by (simp add: unreadCount_def list_ex_iff render_notification_def length_greater_0_conv
        filter_empty_conv)
  show ?thesis
    unfolding k e by (simp add: render_header_def list_all_iff render_notification_def)
qed

theorem header_matches_cards_witness:
  "nh_unread_line (render_header notif_init) = Some 2
   \<and> list_all (\<lambda>c. nc_actions c \<longrightarrow> nc_highlighted c \<and> nc_unread_dot c)
       (map render_notification (notifications notif_init))"
  using header_matches_cards [of notif_init] unreadCount_init
  by (simp add: render_header_def)

end
