(* ===== verification/JS_Date.thy ===== *)
theory JS_Date
  imports Prelude
begin

text \<open>
  The part of ECMAScript's \<open>Date\<close> that \<^verbatim>\<open>Profile.tsx\<close> uses:
  \<open>new Date(s)\<close> on a date-only string \<open>YYYY-MM-DD\<close> and
  \<open>toLocaleDateString()\<close> on the result. A date-only form is read as midnight UTC
  (ECMA-262, Date Time String Format: "date-only forms are interpreted as a UTC time"),
  so the time value is \<open>days_from_civil y m d\<close> days of 86400000 ms after the epoch.
  \<open>toLocaleDateString\<close> prints the calendar date of that instant in the local time zone;
  the model keeps that date as a triple (the textual format depends on the locale) and the
  zone as a fixed offset in minutes east of UTC. \<open>days_from_civil\<close> and
  \<open>civil_from_days\<close> are the proleptic Gregorian conversions of the specification's
  MakeDay and YearFromTime/MonthFromTime/DateFromTime, in the closed form by eras of 400
  years (integer division is HOL's floor division, which is what the closed form needs).
  A string outside the format, or with a month or day out of range, gives an invalid date
  (\<open>None\<close>); days beyond the length of their month are not rejected.
\<close>

type_synonym civil = "int \<times> int \<times> int"

definition days_from_civil :: "int \<Rightarrow> int \<Rightarrow> int \<Rightarrow> int" where
  "days_from_civil y m d =
     (let y' = (if m \<le> 2 then y - 1 else y);
          era = y' div 400;
          yoe = y' - era * 400;
          doy = (153 * (if 2 < m then m - 3 else m + 9) + 2) div 5 + d - 1;
          doe = yoe * 365 + yoe div 4 - yoe div 100 + doy
      in era * 146097 + doe - 719468)"

definition civil_from_days :: "int \<Rightarrow> civil" where
  "civil_from_days z0 =
     (let z = z0 + 719468;
          era = z div 146097;
          doe = z - era * 146097;
          yoe = (doe - doe div 1460 + doe div 36524 - doe div 146096) div 365;
          doy = doe - (365 * yoe + yoe div 4 - yoe div 100);
          mp = (5 * doy + 2) div 153;
          d = doy - (153 * mp + 2) div 5 + 1;
          m = (if mp < 10 then mp + 3 else mp - 9)
      in (if m \<le> 2 then yoe + era * 400 + 1 else yoe + era * 400, m, d))"

definition ms_per_day :: int where
  "ms_per_day = 86400000"

definition digits_value :: "jsstr \<Rightarrow> int" where
  "digits_value s = foldl (\<lambda>acc c. acc * 10 + (uint c - 48)) 0 s"

definition parse_iso_date :: "jsstr \<Rightarrow> int option" where
  "parse_iso_date s =
     (if length s = 10 \<and> s ! 4 = 0x2D \<and> s ! 7 = 0x2D
         \<and> list_all is_digit (take 4 s @ take 2 (drop 5 s) @ drop 8 s)
      then (let y = digits_value (take 4 s); m = digits_value (take 2 (drop 5 s));
                d = digits_value (drop 8 s)
            in if 1 \<le> m \<and> m \<le> 12 \<and> 1 \<le> d \<and> d \<le> 31
               then Some (days_from_civil y m d * ms_per_day) else None)
      else None)"

definition local_date :: "int \<Rightarrow> int \<Rightarrow> civil" where
  "local_date off t = civil_from_days ((t + off * 60000) div ms_per_day)"

definition toLocaleDateString :: "int \<Rightarrow> int option \<Rightarrow> civil option" where
  "toLocaleDateString off t = map_option (local_date off) t"

subsection \<open>Midnight UTC seen from a time zone\<close>

text \<open>An instant at midnight UTC falls on the same local day east of UTC and on the day
  before west of it, for offsets of less than a day.\<close>

lemma local_day_midnight:
  assumes "- 1440 < off" and "off < 1440"
  shows "(days * ms_per_day + off * 60000) div ms_per_day = (if off < 0 then days - 1 else days)"
proof (cases "off < 0")
  case True
  have "(days * ms_per_day + off * 60000) div ms_per_day = days + (off * 60000) div ms_per_day"
    by (simp add: ms_per_day_def)
  moreover have "(off * 60000) div ms_per_day = -1"
    using True assms(1) by (simp add: ms_per_day_def div_eq_minus1 div_pos_neg_trivial
        int_div_less_self zdiv_eq_0_iff)
  ultimately show ?thesis using True by simp
next
  case False
  have "(days * ms_per_day + off * 60000) div ms_per_day = days + (off * 60000) div ms_per_day"
    by (simp add: ms_per_day_def)
  moreover have "(off * 60000) div ms_per_day = 0"
    using False assms(2) by (simp add: ms_per_day_def div_pos_pos_trivial)
  ultimately show ?thesis using False by simp
qed

lemma toLocaleDateString_midnight:
  "- 1440 < off \<Longrightarrow> off < 1440 \<Longrightarrow>
     toLocaleDateString off (Some (days * ms_per_day)) =
       Some (civil_from_days (if off < 0 then days - 1 else days))"
  by (simp add: toLocaleDateString_def local_date_def local_day_midnight)

end
