(* ===== verification/Profile.thy ===== *)
theory Profile
  imports Prelude Feed JS_Date
begin

text \<open>
  The profile screen, \<^verbatim>\<open>src/client/pages/Profile.tsx\<close>: static data (the
  user's posts with a status, the earned badges, two colour tables) and one piece of
  state, the active tab of a \<open>Tabs\<close> control, whose triggers have the values
  \<open>posts\<close> and \<open>badges\<close>. The post categories are the same union as the feed's,
  so the datatype \<open>category\<close> of \<^verbatim>\<open>Feed\<close> is reused; the colour table is the
  screen's own. Emoji icons are written as their UTF-16 code units. A badge's
  "Earned on" line is \<open>new Date(badge.earnedDate).toLocaleDateString()\<close>
  (\<open>earned_on\<close>), which depends on the local time zone \<open>off\<close> of the browser.
\<close>

datatype post_status = Active | Completed | Expired

record my_post =
  mp_id :: jsstr
  mp_category :: category
  mp_description :: jsstr
  mp_timeAgo :: jsstr
  mp_status :: post_status
  mp_responseCount :: nat

record badge =
  badge_id :: jsstr
  badge_name :: jsstr
  badge_icon :: jsstr
  badge_description :: jsstr
  badge_earnedDate :: jsstr

definition profile_mockPosts :: "my_post list" where
  "profile_mockPosts =
    [\<lparr>mp_id = str ''1'', mp_category = Help,
      mp_description = str ''Need help moving furniture to my new apartment'',
      mp_timeAgo = str ''2 hours ago'', mp_status = Active, mp_responseCount = 5\<rparr>,
     \<lparr>mp_id = str ''2'', mp_category = Services,
      mp_description = str ''Professional house cleaning services available'',
      mp_timeAgo = str ''1 day ago'', mp_status = Completed, mp_responseCount = 12\<rparr>,
     \<lparr>mp_id = str ''3'', mp_category = Work,
      mp_description = str ''Looking for freelance graphic designer'',
      mp_timeAgo = str ''3 days ago'', mp_status = Expired, mp_responseCount = 8\<rparr>]"

definition mockBadges :: "badge list" where
  "mockBadges =
    [\<lparr>badge_id = str ''1'', badge_name = str ''Helper'', badge_icon = [0xD83E, 0xDD1D],
      badge_description = str ''Helped 5+ neighbors'', badge_earnedDate = str ''2024-01-15''\<rparr>,
     \<lparr>badge_id = str ''2'', badge_name = str ''Reliable'', badge_icon = [0x2B50],
      badge_description = str ''4.8+ star rating'', badge_earnedDate = str ''2024-01-20''\<rparr>,
     \<lparr>badge_id = str ''3'', badge_name = str ''Active Member'', badge_icon = [0xD83D, 0xDD25],
      badge_description = str ''30+ posts created'', badge_earnedDate = str ''2024-02-01''\<rparr>]"

fun profile_categoryColors :: "category \<Rightarrow> jsstr" where
  "profile_categoryColors Help = str ''bg-blue-100 text-blue-800''"
| "profile_categoryColors Work = str ''bg-green-100 text-green-800''"
| "profile_categoryColors Services = str ''bg-purple-100 text-purple-800''"
| "profile_categoryColors Alert = str ''bg-red-100 text-red-800''"

fun statusColors :: "post_status \<Rightarrow> jsstr" where
  "statusColors Active = str ''bg-green-100 text-green-800''"
| "statusColors Completed = str ''bg-blue-100 text-blue-800''"
| "statusColors Expired = str ''bg-gray-100 text-gray-800''"

fun status_label :: "post_status \<Rightarrow> jsstr" where
  "status_label Active = str ''active''"
| "status_label Completed = str ''completed''"
| "status_label Expired = str ''expired''"

definition earned_on :: "int \<Rightarrow> badge \<Rightarrow> civil option" where
  "earned_on off b = toLocaleDateString off (parse_iso_date (badge_earnedDate b))"

record profile_state =
  activeTab :: jsstr

definition profile_init :: profile_state where
  "profile_init = \<lparr>activeTab = str ''posts''\<rparr>"

datatype profile_event =
    Profile_back_link
  | Settings_click
  | Edit_avatar_click
  | Tab_trigger jsstr
  | Load_more_posts_click

fun profile_handle :: "profile_state \<Rightarrow> profile_event \<Rightarrow> profile_state \<times> effect" where
  "profile_handle s Profile_back_link = (s, Navigate Router_link ''/home'')"
| "profile_handle s Settings_click = (s, No_effect)"
| "profile_handle s Edit_avatar_click = (s, No_effect)"
| "profile_handle s (Tab_trigger v) = (s\<lparr>activeTab := v\<rparr>, No_effect)"
| "profile_handle s Load_more_posts_click = (s, No_effect)"

fun profile_input_ok :: "profile_event \<Rightarrow> bool" where
  "profile_input_ok (Tab_trigger v) \<longleftrightarrow> v = str ''posts'' \<or> v = str ''badges''"
| "profile_input_ok _ \<longleftrightarrow> True"

datatype tab_content = Posts_tab "my_post list" | Badges_tab "badge list"

text \<open>The \<open>TabsContent\<close> whose value is the active tab is the one rendered.\<close>

definition profile_render :: "profile_state \<Rightarrow> tab_content list" where
  "profile_render s =
     (if activeTab s = str ''posts'' then [Posts_tab profile_mockPosts] else [])
   @ (if activeTab s = str ''badges'' then [Badges_tab mockBadges] else [])"

text \<open>One card of the My Posts panel: the category badge with its class, the status
  badge with its class (the status string, shown capitalised by CSS), the description, the
  age and the response line.\<close>

record my_post_card =
  mpc_category :: jsstr
  mpc_category_class :: jsstr
  mpc_status :: jsstr
  mpc_status_class :: jsstr
  mpc_text :: jsstr
  mpc_time :: jsstr
  mpc_responses :: jsstr

definition render_my_post :: "my_post \<Rightarrow> my_post_card" where
  "render_my_post p =
     \<lparr>mpc_category = category_label (mp_category p),
      mpc_category_class = profile_categoryColors (mp_category p) @ str '' font-medium'',
      mpc_status = status_label (mp_status p),
      mpc_status_class = statusColors (mp_status p) @ str '' font-medium capitalize'',
      mpc_text = mp_description p,
      mpc_time = mp_timeAgo p,
      mpc_responses = js_nat_string (mp_responseCount p) @ str '' responses''\<rparr>"

text \<open>One card of the Badges panel: icon, name, description and the "Earned on" date in
  the browser's zone \<open>off\<close> (\<open>None\<close> is the Invalid Date).\<close>

record badge_card =
  bc_icon :: jsstr
  bc_name :: jsstr
  bc_description :: jsstr
  bc_earned :: "civil option"

definition render_badge :: "int \<Rightarrow> badge \<Rightarrow> badge_card" where
  "render_badge off b =
     \<lparr>bc_icon = badge_icon b, bc_name = badge_name b, bc_description = badge_description b,
      bc_earned = earned_on off b\<rparr>"

text \<open>The fixed "Next Badge Progress" block under the badges: title, goal, count and the
  width of the bar.\<close>

record badge_progress_view =
  bp_title :: jsstr
  bp_goal :: jsstr
  bp_count :: jsstr
  bp_width :: jsstr

definition badge_progress :: badge_progress_view where
  "badge_progress =
     \<lparr>bp_title = str ''Next Badge Progress'', bp_goal = str ''Super Helper (Help 10+ people)'',
      bp_count = str ''7/10'', bp_width = str ''70%''\<rparr>"

datatype tab_panel =
    Posts_panel "my_post_card list" "jsstr \<times> profile_event"
  | Badges_panel "badge_card list" badge_progress_view

fun render_tab :: "int \<Rightarrow> tab_content \<Rightarrow> tab_panel" where
  "render_tab off (Posts_tab ps) =
     Posts_panel (map render_my_post ps) (str ''Load more posts'', Load_more_posts_click)"
| "render_tab off (Badges_tab bs) = Badges_panel (map (render_badge off) bs) badge_progress"

text \<open>The whole page: the header (back link, title, settings button), the profile header
  (avatar with its fallback and edit button, name, location, bio, the three stats, the
  member-since line), the two tab triggers and the rendered panels.\<close>

record profile_view =
  ppv_back :: profile_event
  ppv_title :: jsstr
  ppv_settings :: profile_event
  ppv_avatar :: "jsstr \<times> jsstr"
  ppv_edit :: profile_event
  ppv_name :: jsstr
  ppv_location :: jsstr
  ppv_bio :: jsstr
  ppv_stats :: "(jsstr \<times> jsstr) list"
  ppv_member_since :: jsstr
  ppv_tabs :: "(jsstr \<times> profile_event) list"
  ppv_panels :: "tab_panel list"

definition handshake :: jsstr where
  "handshake = [0xD83E, 0xDD1D]"

definition profile_page :: "int \<Rightarrow> profile_state \<Rightarrow> profile_view" where
  "profile_page off s =
     \<lparr>ppv_back = Profile_back_link,
      ppv_title = str ''Profile'',
      ppv_settings = Settings_click,
      ppv_avatar = (str ''/placeholder.svg'', str ''AS''),
      ppv_edit = Edit_avatar_click,
      ppv_name = str ''Arjun Sharma'',
      ppv_location = str ''Koramangala, Bangalore'',
      ppv_bio = str ''Software developer who loves helping the community. Always ready to lend a hand! ''
        @ handshake,
      ppv_stats = [(str ''4.8'', str ''Rating''), (str ''32'', str ''Posts''), (str ''15'', str ''Helped'')],
      ppv_member_since = str ''Member since January 2024'',
      ppv_tabs = [(str ''My Posts'', Tab_trigger (str ''posts'')),
                  (str ''Badges'', Tab_trigger (str ''badges''))],
      ppv_panels = map (render_tab off) (profile_render s)\<rparr>"

inductive profile_reachable :: "profile_state \<Rightarrow> bool" where
  profile_start: "profile_reachable profile_init"
| profile_next: "profile_reachable s \<Longrightarrow> profile_input_ok e \<Longrightarrow> profile_reachable (fst (profile_handle s e))"

lemma profile_handle_tab:
  "profile_input_ok e \<Longrightarrow> activeTab s = str ''posts'' \<or> activeTab s = str ''badges'' \<Longrightarrow>
     activeTab (fst (profile_handle s e)) = str ''posts'' \<or> activeTab (fst (profile_handle s e)) = str ''badges''"
  by (cases e) auto

lemma profile_reachable_render:
  assumes "profile_reachable s"
  shows "profile_render s = [Posts_tab profile_mockPosts] \<or> profile_render s = [Badges_tab mockBadges]"
proof -
  from assms have "activeTab s = str ''posts'' \<or> activeTab s = str ''badges''"
  proof (induction rule: profile_reachable.induct)
    case profile_start
    show ?case by (simp add: profile_init_def)
  next
    case (profile_next s e)
    from profile_next.hyps(2) profile_next.IH show ?case by (rule profile_handle_tab)
  qed
  then show ?thesis
    by (auto simp: profile_render_def)
qed

text \<open>
  C16. The profile always shows exactly one of its two tabs: in every reachable state the
  rendered content is the post list or the badge list, never both and never neither.
\<close>

theorem profile_one_tab:
  assumes "profile_reachable s"
  shows "profile_render s = [Posts_tab profile_mockPosts] \<or> profile_render s = [Badges_tab mockBadges]"
  using assms by (rule profile_reachable_render)

theorem profile_one_tab_witness:
  "profile_reachable (fst (profile_handle profile_init (Tab_trigger (str ''badges''))))
   \<and> profile_render (fst (profile_handle profile_init (Tab_trigger (str ''badges''))))
       = [Badges_tab mockBadges]"
proof -
  have r: "profile_reachable (fst (profile_handle profile_init (Tab_trigger (str ''badges''))))"
    by (rule profile_next [OF profile_start]) simp
  have "profile_render (fst (profile_handle profile_init (Tab_trigger (str ''badges''))))
          \<noteq> [Posts_tab profile_mockPosts]"
    by (simp add: profile_render_def profile_init_def)
  with profile_one_tab [OF r] r show ?thesis by simp
qed

lemma profile_posts_panel_responses:
  "map (mpc_responses \<circ> render_my_post) profile_mockPosts =
     [str ''5 responses'', str ''12 responses'', str ''8 responses'']"
  by (simp add: profile_mockPosts_def render_my_post_def js_nat_string.simps js_simps)

lemma parse_mock_dates:
  "parse_iso_date (str ''2024-01-15'') = Some (19737 * ms_per_day)"
  "parse_iso_date (str ''2024-01-20'') = Some (19742 * ms_per_day)"
  "parse_iso_date (str ''2024-02-01'') = Some (19754 * ms_per_day)"
  by (simp_all add: parse_iso_date_def digits_value_def days_from_civil_def Let_def js_simps)

lemma civil_mock_dates:
  "civil_from_days 19737 = (2024, 1, 15)" "civil_from_days 19736 = (2024, 1, 14)"
  "civil_from_days 19742 = (2024, 1, 20)" "civil_from_days 19741 = (2024, 1, 19)"
  "civil_from_days 19754 = (2024, 2, 1)" "civil_from_days 19753 = (2024, 1, 31)"
  by code_simp+

text \<open>
  C28. The "Earned on" date of every seeded badge is right in a time zone east of UTC (such
  as India's, +330 minutes) and one calendar day early in every zone west of UTC: the
  date-only string is read as midnight UTC and printed in local time.
\<close>

theorem earned_date_shift:
  assumes "- 1440 < off" and "off < 1440"
  shows "map (earned_on off) mockBadges =
           (if off < 0 then [Some (2024, 1, 14), Some (2024, 1, 19), Some (2024, 1, 31)]
            else [Some (2024, 1, 15), Some (2024, 1, 20), Some (2024, 2, 1)])"
  using toLocaleDateString_midnight [OF assms]
  by (simp add: mockBadges_def earned_on_def parse_mock_dates civil_mock_dates)

theorem earned_date_shift_witness:
  "map (earned_on 330) mockBadges = [Some (2024, 1, 15), Some (2024, 1, 20), Some (2024, 2, 1)]
   \<and> map (earned_on (- 300)) mockBadges = [Some (2024, 1, 14), Some (2024, 1, 19), Some (2024, 1, 31)]"
  using earned_date_shift [of 330] earned_date_shift [of "- 300"] by simp

end
