(* ===== verification/Static_Screens.thy ===== *)
theory Static_Screens
  imports Prelude
begin

text \<open>
  The two screens without state hooks of their own: \<^verbatim>\<open>src/client/pages/Welcome.tsx\<close>
  and the page part of \<^verbatim>\<open>src/client/pages/PushConfirmation.tsx\<close> (its timer effect is
  in \<^verbatim>\<open>App\<close>, where the browser's timer queue is). Each has a datatype of its links,
  a handler giving the navigation a link performs, and a view record holding the text the
  JSX renders, in document order. The view of an action pairs its label with the link's
  event, so that what the page shows and what a click does are read off one value. Icons,
  SVG paths and class names are presentation and are left out; JSX text is taken with the
  whitespace around it collapsed, as React renders it. The emoji of the confirmation headline
  is the surrogate pair of U+1F389.
\<close>

subsection \<open>Welcome\<close>

datatype welcome_event = Get_started_link

fun welcome_handle :: "welcome_event \<Rightarrow> effect" where
  "welcome_handle Get_started_link = Navigate Router_link ''/login''"

record welcome_view =
  wv_title :: jsstr
  wv_tagline :: jsstr
  wv_illustration :: jsstr
  wv_features :: "jsstr list"
  wv_actions :: "(jsstr \<times> welcome_event) list"
  wv_footer :: jsstr

definition welcome_render :: welcome_view where
  "welcome_render =
     \<lparr>wv_title = str ''Bartr 3.0'',
      wv_tagline = str ''Need something? Just Bartr it.'',
      wv_illustration = str ''Connect with your neighbors'',
      wv_features = [str ''Help Requests'', str ''Work & Services''],
      wv_actions = [(str ''Get Started'', Get_started_link)],
      wv_footer = str ''Join your hyperlocal community today''\<rparr>"

subsection \<open>Push confirmation\<close>

datatype confirm_event = View_responses_link | Back_to_feed_link

fun confirm_handle :: "confirm_event \<Rightarrow> effect" where
  "confirm_handle View_responses_link = Navigate Router_link ''/notifications''"
| "confirm_handle Back_to_feed_link = Navigate Router_link ''/home''"

record confirm_view =
  cfv_headline :: jsstr
  cfv_lead :: jsstr
  cfv_reach :: jsstr
  cfv_stats :: "(jsstr \<times> jsstr) list"
  cfv_next_title :: jsstr
  cfv_next :: "(jsstr \<times> jsstr) list"
  cfv_actions :: "(jsstr \<times> confirm_event) list"
  cfv_notice :: jsstr

definition party_popper :: jsstr where
  "party_popper = [0xD83C, 0xDF89]"

definition confirm_render :: confirm_view where
  "confirm_render =
     \<lparr>cfv_headline = party_popper @ str '' Post Pushed Successfully!'',
      cfv_lead = str ''Your post has been pushed to'',
      cfv_reach = str ''50+ users nearby!'',
      cfv_stats = [(str ''53'', str ''Users Reached''), (str ''2.1 km'', str ''Push Radius'')],
      cfv_next_title = str ''What happens next?'',
      cfv_next =
        [(str ''1'', str ''Nearby users will see your post in their feed''),
         (str ''2'', str ''Interested users will respond to your request''),
         (str ''3'', str ''You'll get notifications for all responses'')],
      cfv_actions = [(str ''View Responses'', View_responses_link),
                     (str ''Back to Feed'', Back_to_feed_link)],
      cfv_notice = str ''Redirecting to home in 5 seconds...''\<rparr>"

subsection \<open>Links\<close>

text \<open>Every action a static page renders is a router link, and distinct actions have
  distinct labels and distinct targets.\<close>

lemma confirm_actions_links:
  "(l, ev) \<in> set (cfv_actions confirm_render) \<Longrightarrow>
     \<exists>p. confirm_handle ev = Navigate Router_link p \<and> p \<in> {''/notifications'', ''/home''}"
  by (auto simp: confirm_render_def)

lemma confirm_actions_all: "set (map snd (cfv_actions confirm_render)) = UNIV"
  by (auto simp: confirm_render_def intro: confirm_event.exhaust)

lemma welcome_actions_all: "set (map snd (wv_actions welcome_render)) = UNIV"
  by (auto simp: welcome_render_def intro: welcome_event.exhaust)

end
