(* ===== verification/App.thy ===== *)
theory App
  imports Login CreatePost Feed Notifications Profile Static_Screens
begin

text \<open>
  The whole application: the screens of \<^verbatim>\<open>src/client/pages\<close> mounted one at a time
  by the router, plus the browser's timer queue and clock.
  \<^item> The route table (\<open>routes\<close>) is the spec's list of paths (section 6); the router
    component itself is not under \<^verbatim>\<open>src/\<close>. An unknown path shows \<open>Not_found\<close>.
  \<^item> A react-router navigation (\<open>Link\<close> or \<open>navigate\<close>) to the current route keeps
    the mounted screen and its state; to another route it unmounts the current screen (running
    its effect cleanup) and mounts the target with the initial values of its \<open>useState\<close>
    hooks (\<open>enter\<close>).
  \<^item> An assignment to \<open>window.location.href\<close> loads a new document: every pending
    timer is dropped and the target screen is mounted afresh (\<open>location_assign\<close>).
  \<^item> \<^verbatim>\<open>PushConfirmation.tsx\<close>: on mount its \<open>useEffect\<close> registers a 5000 ms
    timeout whose callback assigns \<open>/home\<close> to \<open>window.location.href\<close>, and
    keeps the handle (\<open>pushConfirmation_mount\<close>); the effect's cleanup clears it
    (\<open>pushConfirmation_cleanup\<close>).
  \<^item> \<open>Tick d\<close> lets \<open>d\<close> milliseconds pass: if a timer falls due, the earliest one
    runs its callback.
  \<^item> An event of a screen that is not mounted has no element to act on and changes nothing.
\<close>

datatype screen =
    Welcome
  | Login_screen
  | Home_screen
  | Create_post_screen
  | Push_confirmation
  | Notifications_screen
  | Profile_screen
  | Not_found

definition routes :: "(path \<times> screen) list" where
  "routes =
    [(''/'', Welcome), (''/login'', Login_screen), (''/home'', Home_screen),
     (''/create-post'', Create_post_screen), (''/push-confirmation'', Push_confirmation),
     (''/notifications'', Notifications_screen), (''/profile'', Profile_screen)]"

definition screen_for :: "path \<Rightarrow> screen" where
  "screen_for p = (case map_of routes p of Some sc \<Rightarrow> sc | None \<Rightarrow> Not_found)"

record timer =
  timer_id :: nat
  due :: nat
  callback :: path

record app =
  screen :: screen
  login :: login_state
  create :: create_state
  home :: home_state
  notifs :: notif_state
  profile :: profile_state
  confirm_timer :: nat
  timers :: "timer list"
  now :: nat
  next_timer_id :: nat
  console :: "jsstr list"

definition app_init :: app where
  "app_init = \<lparr>screen = Welcome, login = login_init, create = create_init, home = home_init,
     notifs = notif_init, profile = profile_init, confirm_timer = 0, timers = [], now = 0,
     next_timer_id = 1, console = []\<rparr>"

definition pushConfirmation_mount :: "app \<Rightarrow> app" where
  "pushConfirmation_mount a =
     a\<lparr>timers := timers a @ [\<lparr>timer_id = next_timer_id a, due = now a + 5000, callback = ''/home''\<rparr>],
       confirm_timer := next_timer_id a, next_timer_id := Suc (next_timer_id a)\<rparr>"

definition pushConfirmation_cleanup :: "app \<Rightarrow> app" where
  "pushConfirmation_cleanup a = a\<lparr>timers := filter (\<lambda>t. timer_id t \<noteq> confirm_timer a) (timers a)\<rparr>"

fun enter :: "screen \<Rightarrow> app \<Rightarrow> app" where
  "enter Login_screen a = a\<lparr>screen := Login_screen, login := login_init\<rparr>"
| "enter Home_screen a = a\<lparr>screen := Home_screen, home := home_init\<rparr>"
| "enter Create_post_screen a = a\<lparr>screen := Create_post_screen, create := create_init\<rparr>"
| "enter Push_confirmation a = pushConfirmation_mount (a\<lparr>screen := Push_confirmation\<rparr>)"
| "enter Notifications_screen a = a\<lparr>screen := Notifications_screen, notifs := notif_init\<rparr>"
| "enter Profile_screen a = a\<lparr>screen := Profile_screen, profile := profile_init\<rparr>"
| "enter sc a = a\<lparr>screen := sc\<rparr>"

fun leave :: "screen \<Rightarrow> app \<Rightarrow> app" where
  "leave Push_confirmation a = pushConfirmation_cleanup a"
| "leave _ a = a"

definition router_go :: "path \<Rightarrow> app \<Rightarrow> app" where
  "router_go p a =
     (if screen_for p = screen a then a else enter (screen_for p) (leave (screen a) a))"

definition location_assign :: "path \<Rightarrow> app \<Rightarrow> app" where
  "location_assign p a = enter (screen_for p) (a\<lparr>timers := []\<rparr>)"

fun apply_effect :: "effect \<Rightarrow> app \<Rightarrow> app" where
  "apply_effect No_effect a = a"
| "apply_effect (Console_log m) a = a\<lparr>console := console a @ [m]\<rparr>"
| "apply_effect (Navigate Location_href p) a = location_assign p a"
| "apply_effect (Navigate Router_link p) a = router_go p a"
| "apply_effect (Navigate Router_navigate p) a = router_go p a"

definition tick :: "nat \<Rightarrow> app \<Rightarrow> app" where
  "tick d a =
     (case sort_key due (filter (\<lambda>t. due t \<le> now a + d) (timers a)) of
        [] \<Rightarrow> a\<lparr>now := now a + d\<rparr>
      | t # _ \<Rightarrow> location_assign (callback t) (a\<lparr>now := now a + d\<rparr>))"

datatype app_event =
    Welcome_ev welcome_event
  | Login_ev login_event
  | Home_ev home_event
  | Create_ev create_event
  | Confirm_ev confirm_event
  | Notif_ev notif_event
  | Profile_ev profile_event
  | Tick nat

fun app_step :: "app \<Rightarrow> app_event \<Rightarrow> app" where
  "app_step a (Welcome_ev e) =
     (if screen a = Welcome then apply_effect (welcome_handle e) a else a)"
| "app_step a (Login_ev e) =
     (if screen a = Login_screen
      then apply_effect (snd (login_handle (login a) e)) (a\<lparr>login := fst (login_handle (login a) e)\<rparr>)
      else a)"
| "app_step a (Home_ev e) =
     (if screen a = Home_screen
      then apply_effect (snd (home_handle (home a) e)) (a\<lparr>home := fst (home_handle (home a) e)\<rparr>)
      else a)"
| "app_step a (Create_ev e) =
     (if screen a = Create_post_screen
      then apply_effect (snd (create_handle (create a) e)) (a\<lparr>create := fst (create_handle (create a) e)\<rparr>)
      else a)"
| "app_step a (Confirm_ev e) =
     (if screen a = Push_confirmation then apply_effect (confirm_handle e) a else a)"
| "app_step a (Notif_ev e) =
     (if screen a = Notifications_screen
      then apply_effect (snd (notif_handle (notifs a) e)) (a\<lparr>notifs := fst (notif_handle (notifs a) e)\<rparr>)
      else a)"
| "app_step a (Profile_ev e) =
     (if screen a = Profile_screen
      then apply_effect (snd (profile_handle (profile a) e)) (a\<lparr>profile := fst (profile_handle (profile a) e)\<rparr>)
      else a)"
| "app_step a (Tick d) = tick d a"

fun app_event_ok :: "app_event \<Rightarrow> bool" where
  "app_event_ok (Login_ev e) \<longleftrightarrow> login_input_ok e"
| "app_event_ok (Create_ev e) \<longleftrightarrow> create_input_ok e"
| "app_event_ok (Profile_ev e) \<longleftrightarrow> profile_input_ok e"
| "app_event_ok _ \<longleftrightarrow> True"

fun app_run :: "app \<Rightarrow> app_event list \<Rightarrow> app" where
  "app_run a [] = a"
| "app_run a (e # es) = app_run (app_step a e) es"

inductive app_reachable :: "app \<Rightarrow> bool" where
  app_start: "app_reachable app_init"
| app_next: "app_reachable a \<Longrightarrow> app_event_ok e \<Longrightarrow> app_reachable (app_step a e)"

definition routed :: "effect \<Rightarrow> bool" where
  "routed eff \<longleftrightarrow> (case eff of Navigate k p \<Rightarrow> screen_for p \<noteq> Not_found | _ \<Rightarrow> True)"

definition timers_ok :: "app \<Rightarrow> bool" where
  "timers_ok a \<longleftrightarrow>
     timers a = []
   \<or> (screen a = Push_confirmation \<and> map timer_id (timers a) = [confirm_timer a]
       \<and> map callback (timers a) = [''/home''])"

definition screens_ok :: "app \<Rightarrow> bool" where
  "screens_ok a \<longleftrightarrow>
     login_reachable (login a) \<and> create_reachable (create a) \<and> home_reachable (home a)
   \<and> notif_reachable (notifs a) \<and> profile_reachable (profile a)"

definition app_inv :: "app \<Rightarrow> bool" where
  "app_inv a \<longleftrightarrow> screen a \<noteq> Not_found \<and> timers_ok a \<and> screens_ok a"

text \<open>A run from the welcome screen to the confirmation: get started, skip login, open the
  form, choose Help, describe the request (spec scenario A) and push.\<close>

definition to_form :: "app_event list" where
  "to_form =
     [Welcome_ev Get_started_link, Login_ev Skip_link, Home_ev Create_post_button_link,
      Create_ev (Category_select (str ''help'')),
      Create_ev (Description_input (str ''Need two people to move a couch''))]"

definition to_confirmation :: "app_event list" where
  "to_confirmation =
     [Welcome_ev Get_started_link, Login_ev Skip_link, Home_ev Create_post_button_link,
      Create_ev (Category_select (str ''help'')),
      Create_ev (Description_input (str ''Need two people to move a couch'')),
      Create_ev Push_click]"

subsection \<open>Routes\<close>

lemma screen_for_routes [simp]:
  "screen_for ''/'' = Welcome" "screen_for ''/login'' = Login_screen"
  "screen_for ''/home'' = Home_screen" "screen_for ''/create-post'' = Create_post_screen"
  "screen_for ''/push-confirmation'' = Push_confirmation"
  "screen_for ''/notifications'' = Notifications_screen" "screen_for ''/profile'' = Profile_screen"
  by (simp_all add: screen_for_def routes_def)

lemma routed_simps [simp]:
  "routed No_effect" "routed (Console_log m)" "routed (Navigate k p) \<longleftrightarrow> screen_for p \<noteq> Not_found"
  by (simp_all add: routed_def)

lemma login_handle_routed: "routed (snd (login_handle s e))"
  by (cases e) (simp_all add: handleOtpSubmit_def)

lemma home_handle_routed: "routed (snd (home_handle s e))"
  by (cases e) (simp_all add: handleInterested_def handlePushAgain_def)

lemma create_handle_routed: "routed (snd (create_handle s e))"
  by (cases e) (simp_all add: handleSubmit_def)

lemma notif_handle_routed: "routed (snd (notif_handle s e))"
  by (cases e) simp_all

lemma profile_handle_routed: "routed (snd (profile_handle s e))"
  by (cases e) simp_all

lemmas handle_routed = login_handle_routed home_handle_routed create_handle_routed
  notif_handle_routed profile_handle_routed

subsection \<open>Mounting, unmounting and reloading keep the invariant\<close>

lemma screen_enter [simp]: "screen (enter sc a) = sc"
  by (cases sc) (simp_all add: pushConfirmation_mount_def)

lemma enter_inv:
  assumes "screens_ok a" and "timers a = []" and "sc \<noteq> Not_found"
  shows "app_inv (enter sc a)"
  using assms
  by (cases sc)
     (simp_all add: app_inv_def timers_ok_def screens_ok_def pushConfirmation_mount_def
       login_start create_start home_start notif_start profile_start)

lemma leave_timers: "timers_ok a \<Longrightarrow> timers (leave (screen a) a) = []"
  by (cases "screen a") (auto simp: timers_ok_def pushConfirmation_cleanup_def filter_empty_conv)

lemma screens_ok_leave [simp]: "screens_ok (leave sc a) = screens_ok a"
  by (cases sc) (simp_all add: screens_ok_def pushConfirmation_cleanup_def)

lemma router_go_inv: "app_inv a \<Longrightarrow> screen_for p \<noteq> Not_found \<Longrightarrow> app_inv (router_go p a)"
proof -
  assume inv: "app_inv a" and p: "screen_for p \<noteq> Not_found"
  show ?thesis
  proof (cases "screen_for p = screen a")
    case True
    with inv show ?thesis by (simp add: router_go_def)
  next
    case False
    from inv have "screens_ok (leave (screen a) a)"
      by (simp add: app_inv_def)
    moreover from inv have "timers (leave (screen a) a) = []"
      by (simp add: app_inv_def leave_timers)
    ultimately have "app_inv (enter (screen_for p) (leave (screen a) a))"
      using p by (rule enter_inv)
    with False show ?thesis by (simp add: router_go_def)
  qed
qed

lemma location_assign_inv:
  "app_inv a \<Longrightarrow> screen_for p \<noteq> Not_found \<Longrightarrow> app_inv (location_assign p a)"
proof -
  assume inv: "app_inv a" and p: "screen_for p \<noteq> Not_found"
  from inv have "screens_ok (a\<lparr>timers := []\<rparr>)"
    by (simp add: app_inv_def screens_ok_def)
  moreover have "timers (a\<lparr>timers := []\<rparr>) = []"
    by simp
  ultimately show ?thesis
    using p unfolding location_assign_def by (rule enter_inv)
qed

lemma apply_effect_inv: "app_inv a \<Longrightarrow> routed eff \<Longrightarrow> app_inv (apply_effect eff a)"
proof (cases eff)
  case (Console_log m)
  then show "app_inv a \<Longrightarrow> routed eff \<Longrightarrow> app_inv (apply_effect eff a)"
    by (simp add: app_inv_def timers_ok_def screens_ok_def)
next
  case (Navigate k p)
  then show "app_inv a \<Longrightarrow> routed eff \<Longrightarrow> app_inv (apply_effect eff a)"
    by (cases k) (simp_all add: router_go_inv location_assign_inv)
qed simp

lemma tick_inv: "app_inv a \<Longrightarrow> app_inv (tick d a)"
proof -
  assume inv: "app_inv a"
  show ?thesis
  proof (cases "sort_key due (filter (\<lambda>t. due t \<le> now a + d) (timers a))")
    case Nil
    with inv show ?thesis
      by (simp add: tick_def app_inv_def timers_ok_def screens_ok_def)
  next
    case (Cons t ts)
    then have "t \<in> set (timers a)"
      by (metis filter_is_subset list.set_intros(1) set_sort subsetD)
    with inv have "callback t = ''/home''"
      by (auto simp: app_inv_def timers_ok_def map_eq_Cons_conv)
    moreover from inv have "app_inv (a\<lparr>now := now a + d\<rparr>)"
      by (simp add: app_inv_def timers_ok_def screens_ok_def)
    ultimately have "app_inv (location_assign (callback t) (a\<lparr>now := now a + d\<rparr>))"
      by (simp add: location_assign_inv)
    with Cons show ?thesis
      by (simp add: tick_def)
  qed
qed

subsection \<open>Every step keeps the invariant\<close>

lemma app_step_inv:
  assumes inv: "app_inv a" and ok: "app_event_ok e"
  shows "app_inv (app_step a e)"
proof (cases e)
  case (Welcome_ev w)
  with inv show ?thesis by (cases w) (simp add: router_go_inv)
next
  case (Login_ev le)
  have "app_inv (a\<lparr>login := fst (login_handle (login a) le)\<rparr>)"
    using inv ok Login_ev by (simp add: app_inv_def timers_ok_def screens_ok_def login_next)
  with Login_ev inv show ?thesis by (simp add: apply_effect_inv login_handle_routed)
next
  case (Home_ev he)
  have "app_inv (a\<lparr>home := fst (home_handle (home a) he)\<rparr>)"
    using inv Home_ev by (simp add: app_inv_def timers_ok_def screens_ok_def home_next)
  with Home_ev inv show ?thesis by (simp add: apply_effect_inv home_handle_routed)
next
  case (Create_ev ce)
  have "app_inv (a\<lparr>create := fst (create_handle (create a) ce)\<rparr>)"
    using inv ok Create_ev by (simp add: app_inv_def timers_ok_def screens_ok_def create_next)
  with Create_ev inv show ?thesis by (simp add: apply_effect_inv create_handle_routed)
next
  case (Confirm_ev c)
  with inv show ?thesis by (cases c) (simp_all add: router_go_inv)
next
  case (Notif_ev ne)
  have "app_inv (a\<lparr>notifs := fst (notif_handle (notifs a) ne)\<rparr>)"
    using inv Notif_ev by (simp add: app_inv_def timers_ok_def screens_ok_def notif_next)
  with Notif_ev inv show ?thesis by (simp add: apply_effect_inv notif_handle_routed)
next
  case (Profile_ev pe)
  have "app_inv (a\<lparr>profile := fst (profile_handle (profile a) pe)\<rparr>)"
    using inv ok Profile_ev by (simp add: app_inv_def timers_ok_def screens_ok_def profile_next)
  with Profile_ev inv show ?thesis by (simp add: apply_effect_inv profile_handle_routed)
next
  case (Tick d)
  with inv show ?thesis by (simp add: tick_inv)
qed

lemma app_init_inv: "app_inv app_init"
  by (simp add: app_inv_def app_init_def timers_ok_def screens_ok_def
      login_start create_start home_start notif_start profile_start)

lemma app_reachable_inv: "app_reachable a \<Longrightarrow> app_inv a"
proof (induction rule: app_reachable.induct)
  case app_start
  show ?case by (rule app_init_inv)
next
  case (app_next a e)
  from app_next.IH app_next.hyps(2) show ?case by (rule app_step_inv)
qed

lemma app_init_sel [simp]:
  "screen app_init = Welcome" "now app_init = 0" "timers app_init = []"
  by (simp_all add: app_init_def)

lemma app_run_append: "app_run a (xs @ ys) = app_run (app_run a xs) ys"
  by (induction xs arbitrary: a) simp_all

lemma app_run_reachable:
  "app_reachable a \<Longrightarrow> list_all app_event_ok es \<Longrightarrow> app_reachable (app_run a es)"
  by (induction es arbitrary: a) (auto intro: app_next)

lemma tick_no_timers: "timers a = [] \<Longrightarrow> tick d a = a\<lparr>now := now a + d\<rparr>"
  by (simp add: tick_def)

lemma app_run_to_confirmation:
  "app_run app_init to_confirmation =
     app_init\<lparr>screen := Push_confirmation,
       create := create_init\<lparr>category := str ''help'',
                             description := str ''Need two people to move a couch''\<rparr>,
       confirm_timer := 1, timers := [\<lparr>timer_id = 1, due = 5000, callback = ''/home''\<rparr>],
       next_timer_id := 2\<rparr>"
  using scenario_A_valid_record
  by (simp add: to_confirmation_def app_init_def router_go_def pushConfirmation_mount_def
      handleSubmit_valid)

lemma to_confirmation_ok: "list_all app_event_ok to_confirmation"
  by (simp add: to_confirmation_def categories_def)

lemma app_reachable_confirmation: "app_reachable (app_run app_init to_confirmation)"
  by (rule app_run_reachable [OF app_start to_confirmation_ok])

subsection \<open>Which steps reach the confirmation screen\<close>

lemma screen_apply_effect:
  "screen (apply_effect eff a) =
     (case eff of Navigate Location_href p \<Rightarrow> screen_for p
      | Navigate k p \<Rightarrow> (if screen_for p = screen a then screen a else screen_for p)
      | _ \<Rightarrow> screen a)"
proof (cases eff)
  case (Navigate k p)
  then show ?thesis by (cases k) (simp_all add: router_go_def location_assign_def)
qed simp_all

lemma screen_for_pc: "screen_for p = Push_confirmation \<longleftrightarrow> p = ''/push-confirmation''"
  by (auto simp: screen_for_def routes_def split: if_splits option.splits)

definition avoids_pc :: "effect \<Rightarrow> bool" where
  "avoids_pc eff \<longleftrightarrow> (case eff of Navigate k p \<Rightarrow> p \<noteq> ''/push-confirmation'' | _ \<Rightarrow> True)"

lemma avoids_pc_screen:
  "avoids_pc eff \<Longrightarrow> screen a \<noteq> Push_confirmation \<Longrightarrow> screen (apply_effect eff a) \<noteq> Push_confirmation"
  by (auto simp: screen_apply_effect avoids_pc_def screen_for_pc split: effect.splits nav_kind.splits)

lemma login_avoids_pc: "avoids_pc (snd (login_handle ls le))"
  by (cases le) (simp_all add: avoids_pc_def handleOtpSubmit_def)

lemma home_avoids_pc: "avoids_pc (snd (home_handle hs he))"
  by (cases he) (simp_all add: avoids_pc_def handleInterested_def handlePushAgain_def)

lemma notif_avoids_pc: "avoids_pc (snd (notif_handle ns ne))"
  by (cases ne) (simp_all add: avoids_pc_def)

lemma profile_avoids_pc: "avoids_pc (snd (profile_handle ps pe))"
  by (cases pe) (simp_all add: avoids_pc_def)

lemma welcome_avoids_pc: "avoids_pc (welcome_handle we)"
  by (cases we) (simp add: avoids_pc_def)

lemma create_avoids_pc: "ce \<noteq> Push_click \<Longrightarrow> avoids_pc (snd (create_handle cs ce))"
  by (cases ce) (simp_all add: avoids_pc_def)

lemmas handlers_avoid_pc = login_avoids_pc home_avoids_pc notif_avoids_pc profile_avoids_pc
  welcome_avoids_pc create_avoids_pc

lemma app_step_enters_pc:
  assumes inv: "app_inv a" and off: "screen a \<noteq> Push_confirmation"
    and on: "screen (app_step a e) = Push_confirmation"
  shows "screen a = Create_post_screen \<and> e = Create_ev Push_click \<and> isFormValid (create a)"
proof (cases e)
  case (Create_ev ce)
  show ?thesis
  proof (cases "ce = Push_click")
    case True
    with Create_ev on off show ?thesis
      by (auto simp: push_click_eq split: if_splits)
  next
    case False
    with Create_ev on off create_avoids_pc [OF False] avoids_pc_screen show ?thesis
      by (auto split: if_splits)
  qed
next
  case (Tick d)
  from inv off have "timers a = []"
    by (simp add: app_inv_def timers_ok_def)
  with Tick on off show ?thesis
    by (simp add: tick_no_timers)
qed (use on off handlers_avoid_pc avoids_pc_screen in \<open>auto split: if_splits\<close>)

lemma app_run_to_form:
  "app_run app_init to_form =
     app_init\<lparr>screen := Create_post_screen,
       create := create_init\<lparr>category := str ''help'',
                             description := str ''Need two people to move a couch''\<rparr>\<rparr>"
  by (simp add: to_form_def app_init_def router_go_def)

lemma app_reachable_form: "app_reachable (app_run app_init to_form)"
  by (rule app_run_reachable [OF app_start]) (simp add: to_form_def categories_def)

lemma push_from_valid_form:
  assumes "app_inv a" "screen a = Create_post_screen" "isFormValid (create a)"
  shows "app_step a (Create_ev Push_click) =
           a\<lparr>screen := Push_confirmation, confirm_timer := next_timer_id a,
             timers := [\<lparr>timer_id = next_timer_id a, due = now a + 5000, callback = ''/home''\<rparr>],
             next_timer_id := Suc (next_timer_id a)\<rparr>"
proof -
  from assms(1,2) have "timers a = []"
    by (simp add: app_inv_def timers_ok_def)
  with assms(2,3) show ?thesis
    by (simp add: handleSubmit_valid router_go_def pushConfirmation_mount_def)
qed

text \<open>
  C1. The redirect timer of the confirmation screen is pending only while that screen is
  mounted: in every reachable state there is no pending timer, or the screen is the
  confirmation and the one pending timer is the one its effect registered.
\<close>

theorem app_timer_only_on_confirmation:
  assumes "app_reachable a"
  shows "timers a = [] \<or> (screen a = Push_confirmation \<and> map timer_id (timers a) = [confirm_timer a])"
  using app_reachable_inv [OF assms] by (auto simp: app_inv_def timers_ok_def)

theorem app_timer_only_on_confirmation_witness:
  "app_reachable (app_run app_init to_confirmation)
   \<and> timers (app_run app_init to_confirmation) \<noteq> []
   \<and> screen (app_run app_init to_confirmation) = Push_confirmation"
  using app_timer_only_on_confirmation [OF app_reachable_confirmation] app_reachable_confirmation
  by (simp add: app_run_to_confirmation)

text \<open>
  C5. No stale redirect: on any screen but the confirmation, letting time pass changes
  nothing but the clock. In particular leaving the confirmation after 2000 ms (spec
  scenario E) cancels its 5000 ms redirect.
\<close>

theorem tick_off_confirmation:
  assumes "app_reachable a" and "screen a \<noteq> Push_confirmation"
  shows "app_step a (Tick d) = a\<lparr>now := now a + d\<rparr>"
proof -
  from app_reachable_inv [OF assms(1)] assms(2) have "timers a = []"
    by (simp add: app_inv_def timers_ok_def)
  then show ?thesis by (simp add: tick_no_timers)
qed

theorem tick_off_confirmation_scenario_E:
  "app_reachable (app_run app_init (to_confirmation @ [Tick 2000, Confirm_ev View_responses_link]))
   \<and> screen (app_run app_init (to_confirmation @ [Tick 2000, Confirm_ev View_responses_link]))
       = Notifications_screen
   \<and> screen (app_step (app_run app_init (to_confirmation @ [Tick 2000, Confirm_ev View_responses_link]))
       (Tick 5000)) = Notifications_screen"
proof -
  let ?b = "app_run app_init (to_confirmation @ [Tick 2000, Confirm_ev View_responses_link])"
  have r: "app_reachable ?b"
    by (rule app_run_reachable [OF app_start]) (simp add: to_confirmation_ok)
  have sc: "screen ?b = Notifications_screen"
    by (simp add: app_run_append app_run_to_confirmation tick_def router_go_def
        pushConfirmation_cleanup_def)
  then have "screen ?b \<noteq> Push_confirmation" by simp
  with tick_off_confirmation [OF r] r sc show ?thesis by simp
qed

text \<open>
  C2. The confirmation screen is entered only by pushing a valid form: a step from any
  other reachable state lands on it only if it was the Push click on the create-post
  screen with \<open>isFormValid\<close> holding.
\<close>

theorem confirmation_needs_valid_form:
  assumes "app_reachable a" and "screen a \<noteq> Push_confirmation"
    and "screen (app_step a e) = Push_confirmation"
  shows "screen a = Create_post_screen \<and> e = Create_ev Push_click \<and> isFormValid (create a)"
  using app_step_enters_pc [OF app_reachable_inv [OF assms(1)] assms(2,3)] .

theorem confirmation_needs_valid_form_witness:
  "app_reachable (app_run app_init to_form)
   \<and> screen (app_run app_init to_form) \<noteq> Push_confirmation
   \<and> screen (app_step (app_run app_init to_form) (Create_ev Push_click)) = Push_confirmation
   \<and> isFormValid (create (app_run app_init to_form))"
proof -
  have s: "screen (app_run app_init to_form) = Create_post_screen"
    by (simp add: app_run_to_form)
  have v: "isFormValid (create (app_run app_init to_form))"
    using scenario_A_valid_record by (simp add: app_run_to_form)
  have on: "screen (app_step (app_run app_init to_form) (Create_ev Push_click)) = Push_confirmation"
    using push_from_valid_form [OF app_reachable_inv [OF app_reachable_form] s v] by simp
  have off: "screen (app_run app_init to_form) \<noteq> Push_confirmation"
    by (simp add: app_run_to_form)
  from confirmation_needs_valid_form [OF app_reachable_form off on] app_reachable_form off on
  show ?thesis by simp
qed

text \<open>
  C6. Pushing a valid form shows the confirmation, and the redirect to the home feed
  happens after exactly 5000 ms: a tick of fewer milliseconds leaves the confirmation
  up, a tick of 5000 or more lands on the home feed.
\<close>

theorem confirmation_redirect_timing:
  assumes "app_reachable a" and "screen a = Create_post_screen" and "isFormValid (create a)"
  shows "screen (app_step a (Create_ev Push_click)) = Push_confirmation
       \<and> screen (app_step (app_step a (Create_ev Push_click)) (Tick d))
           = (if d < 5000 then Push_confirmation else Home_screen)"
  using push_from_valid_form [OF app_reachable_inv [OF assms(1)] assms(2,3)]
  by (simp add: tick_def location_assign_def)

theorem confirmation_redirect_timing_witness:
  "app_reachable (app_run app_init to_form)
   \<and> screen (app_step (app_step (app_run app_init to_form) (Create_ev Push_click)) (Tick 5000))
       = Home_screen"
proof -
  have s: "screen (app_run app_init to_form) = Create_post_screen"
    by (simp add: app_run_to_form)
  have v: "isFormValid (create (app_run app_init to_form))"
    using scenario_A_valid_record by (simp add: app_run_to_form)
  from confirmation_redirect_timing [OF app_reachable_form s v, of 5000] app_reachable_form
  show ?thesis by simp
qed

end
