(* ===== verification/Redirect.thy ===== *)
theory Redirect
  imports App "HOL-Library.While_Combinator"
begin

text \<open>
  The confirmation screen's redirect seen over time. \<open>pc_window\<close> is the timing
  invariant of the pending timer: while \<^verbatim>\<open>PushConfirmation.tsx\<close> is mounted, exactly
  one timer is pending and it falls due within the next 5000 ms. \<open>fire_next\<close> is what
  the browser's event loop does when the user does nothing: wait until the earliest pending
  timer is due and run it; \<open>settle\<close> repeats that while a timer is pending, as a
  \<open>while_option\<close>, so that a redirect chain that never ends would be \<open>None\<close>.
\<close>

definition pc_window :: "app \<Rightarrow> bool" where
  "pc_window a \<longleftrightarrow>
     (screen a = Push_confirmation \<longrightarrow>
        length (timers a) = 1 \<and> list_all (\<lambda>t. now a < due t \<and> due t \<le> now a + 5000) (timers a))"

definition fire_next :: "app \<Rightarrow> app" where
  "fire_next a =
     (case sort_key due (timers a) of [] \<Rightarrow> a | t # _ \<Rightarrow> tick (due t - now a) a)"

definition settle :: "app \<Rightarrow> app option" where
  "settle a = while_option (\<lambda>b. timers b \<noteq> []) fire_next a"

subsection \<open>The timing invariant\<close>

lemma enter_timers: "sc \<noteq> Push_confirmation \<Longrightarrow> timers (enter sc a) = timers a"
  by (cases sc) simp_all

lemma pc_window_enter: "timers a = [] \<Longrightarrow> pc_window (enter sc a)"
  by (cases sc) (simp_all add: pc_window_def pushConfirmation_mount_def)

lemma pc_window_location_assign: "pc_window (location_assign p a)"
  by (simp add: location_assign_def pc_window_enter)

lemma pc_window_router_go: "timers_ok a \<Longrightarrow> pc_window a \<Longrightarrow> pc_window (router_go p a)"
  by (simp add: router_go_def leave_timers pc_window_enter)

lemma pc_window_apply_effect:
  "timers_ok a \<Longrightarrow> pc_window a \<Longrightarrow> pc_window (apply_effect eff a)"
proof (cases eff)
  case (Console_log m)
  then show "timers_ok a \<Longrightarrow> pc_window a \<Longrightarrow> pc_window (apply_effect eff a)"
    by (simp add: pc_window_def)
next
  case (Navigate k p)
  then show "timers_ok a \<Longrightarrow> pc_window a \<Longrightarrow> pc_window (apply_effect eff a)"
    by (cases k) (simp_all add: pc_window_router_go pc_window_location_assign)
qed simp

lemma pc_window_tick: "pc_window a \<Longrightarrow> pc_window (tick d a)"
proof (cases "sort_key due (filter (\<lambda>t. due t \<le> now a + d) (timers a))")
  case Nil
  then have "filter (\<lambda>t. due t \<le> now a + d) (timers a) = []"
    by (metis length_sort length_0_conv)
  then have "list_all (\<lambda>t. now a + d < due t) (timers a)"
    by (auto simp: filter_empty_conv list_all_iff)
  then show "pc_window a \<Longrightarrow> pc_window (tick d a)"
    using Nil by (auto simp: tick_def pc_window_def list_all_iff)
next
  case (Cons t ts)
  then show "pc_window a \<Longrightarrow> pc_window (tick d a)"
    by (simp add: tick_def pc_window_location_assign)
qed

lemma pc_window_update [simp]:
  "pc_window (a\<lparr>login := x\<rparr>) = pc_window a" "pc_window (a\<lparr>home := y\<rparr>) = pc_window a"
  "pc_window (a\<lparr>create := z\<rparr>) = pc_window a" "pc_window (a\<lparr>notifs := n\<rparr>) = pc_window a"
  "pc_window (a\<lparr>profile := p\<rparr>) = pc_window a"
  by (simp_all add: pc_window_def)

lemma timers_ok_update [simp]:
  "timers_ok (a\<lparr>login := x\<rparr>) = timers_ok a" "timers_ok (a\<lparr>home := y\<rparr>) = timers_ok a"
  "timers_ok (a\<lparr>create := z\<rparr>) = timers_ok a" "timers_ok (a\<lparr>notifs := n\<rparr>) = timers_ok a"
  "timers_ok (a\<lparr>profile := p\<rparr>) = timers_ok a"
  by (simp_all add: timers_ok_def)

lemma pc_window_step: "app_inv a \<Longrightarrow> pc_window a \<Longrightarrow> pc_window (app_step a e)"
  by (cases e) (simp_all add: app_inv_def pc_window_apply_effect pc_window_tick)

lemma app_reachable_pc_window: "app_reachable a \<Longrightarrow> pc_window a"
proof (induction rule: app_reachable.induct)
  case app_start
  show ?case by (simp add: pc_window_def)
next
  case (app_next a e)
  from app_reachable_inv [OF app_next.hyps(1)] app_next.IH show ?case
    by (rule pc_window_step)
qed

lemma timers_single:
  assumes "timers_ok a" and "timers a \<noteq> []"
  obtains t where "timers a = [t]" "callback t = ''/home''" "screen a = Push_confirmation"
  using assms by (auto simp: timers_ok_def map_eq_Cons_conv)

lemma leave_confirmation_timers:
  "app_reachable a \<Longrightarrow> timers (leave (screen a) a) = []"
  using app_reachable_inv by (simp add: app_inv_def leave_timers)

subsection \<open>The event loop settles\<close>

lemma fire_next_single:
  assumes "timers a = [t]"
  shows "fire_next a = app_step a (Tick (due t - now a))"
    and "fire_next a = location_assign (callback t) (a\<lparr>now := now a + (due t - now a)\<rparr>)"
  using assms by (simp_all add: fire_next_def tick_def)

lemma settle_idle: "timers a = [] \<Longrightarrow> settle a = Some a"
  by (simp add: settle_def while_option_unfold [of _ _ a])

lemma settle_one: "timers a \<noteq> [] \<Longrightarrow> timers (fire_next a) = [] \<Longrightarrow> settle a = Some (fire_next a)"
  by (simp add: settle_def while_option_unfold [of _ _ a] while_option_unfold [of _ _ "fire_next a"])

text \<open>
  C18. While the confirmation screen is mounted, its redirect is pending and falls due
  after more than 0 and at most 5000 ms from now, to \<open>/home\<close>: what the notice
  "Redirecting to home in 5 seconds..." announces is never later than the truth, and the
  timer has not silently passed its due time.
\<close>

theorem confirmation_countdown:
  assumes "app_reachable a" and "screen a = Push_confirmation"
  shows "\<exists>t. timers a = [t] \<and> now a < due t \<and> due t \<le> now a + 5000 \<and> callback t = ''/home''"
proof -
  from app_reachable_pc_window [OF assms(1)] assms(2)
  obtain t where t: "timers a = [t]" and w: "now a < due t" "due t \<le> now a + 5000"
    by (auto simp: pc_window_def length_Suc_conv)
  from app_reachable_inv [OF assms(1)] t have "callback t = ''/home''"
    by (simp add: app_inv_def timers_ok_def)
  with t w show ?thesis by blast
qed

theorem confirmation_countdown_witness:
  "app_reachable (app_run app_init (to_confirmation @ [Tick 2000]))
   \<and> screen (app_run app_init (to_confirmation @ [Tick 2000])) = Push_confirmation
   \<and> now (app_run app_init (to_confirmation @ [Tick 2000])) = 2000
   \<and> (\<exists>t. timers (app_run app_init (to_confirmation @ [Tick 2000])) = [t] \<and> due t = 5000)"
proof -
  let ?b = "app_run app_init (to_confirmation @ [Tick 2000])"
  have r: "app_reachable ?b"
    by (rule app_run_reachable [OF app_start]) (simp add: to_confirmation_ok)
  have b: "?b = (app_run app_init to_confirmation)\<lparr>now := 2000\<rparr>"
    by (simp add: app_run_append app_run_to_confirmation tick_def)
  then have sc: "screen ?b = Push_confirmation" and n: "now ?b = 2000"
    and tm: "timers ?b = [\<lparr>timer_id = 1, due = 5000, callback = ''/home''\<rparr>]"
    by (simp_all add: app_run_to_confirmation)
  from confirmation_countdown [OF r sc] r sc n tm show ?thesis by simp
qed

text \<open>
  C19. Each of the actions the confirmation page renders (View Responses, Back to Feed)
  leaves the page and cancels the pending redirect.
\<close>

theorem confirm_actions_cancel:
  assumes "app_reachable a" and "screen a = Push_confirmation"
    and "(l, ev) \<in> set (cfv_actions confirm_render)"
  shows "screen (app_step a (Confirm_ev ev)) \<noteq> Push_confirmation
       \<and> timers (app_step a (Confirm_ev ev)) = []"
proof -
  obtain p where h: "confirm_handle ev = Navigate Router_link p"
    and p: "p \<in> {''/notifications'', ''/home''}"
    using confirm_actions_links [OF assms(3)] by blast
  from p have sp: "screen_for p \<noteq> Push_confirmation"
    by auto
  from leave_confirmation_timers [OF assms(1)] assms(2)
  have "timers (leave Push_confirmation a) = []"
    by simp
  with assms(2) h sp show ?thesis
    by (simp add: router_go_def enter_timers)
qed

theorem confirm_actions_cancel_witness:
  "app_reachable (app_run app_init to_confirmation)
   \<and> (str ''View Responses'', View_responses_link) \<in> set (cfv_actions confirm_render)
   \<and> timers (app_step (app_run app_init to_confirmation) (Confirm_ev View_responses_link)) = []
   \<and> screen (app_step (app_run app_init to_confirmation) (Confirm_ev View_responses_link))
       \<noteq> Push_confirmation"
proof -
  have m: "(str ''View Responses'', View_responses_link) \<in> set (cfv_actions confirm_render)"
    by (simp add: confirm_render_def)
  have sc: "screen (app_run app_init to_confirmation) = Push_confirmation"
    by (simp add: app_run_to_confirmation)
  from confirm_actions_cancel [OF app_reachable_confirmation sc m] app_reachable_confirmation m
  show ?thesis by simp
qed

text \<open>
  C20. With no user input, the browser's event loop settles in every reachable state: running
  due timers terminates (\<open>settle\<close> is \<open>Some\<close>) in a reachable state with no timer
  pending, which is the home feed when a redirect was pending and the same screen otherwise.
\<close>

theorem settle_terminates:
  assumes "app_reachable a"
  shows "\<exists>b. settle a = Some b \<and> app_reachable b \<and> timers b = []
           \<and> screen b = (if timers a = [] then screen a else Home_screen)"
proof (cases "timers a = []")
  case True
  with assms show ?thesis by (simp add: settle_idle)
next
  case False
  from app_reachable_inv [OF assms] have ok: "timers_ok a"
    by (simp add: app_inv_def)
  obtain t where t: "timers a = [t]" "callback t = ''/home''"
    using timers_single [OF ok False] by blast
  have fired: "timers (fire_next a) = []" "screen (fire_next a) = Home_screen"
    by (simp_all add: fire_next_single(2) [OF t(1)] t(2) location_assign_def)
  have "app_reachable (fire_next a)"
    unfolding fire_next_single(1) [OF t(1)] by (rule app_next [OF assms]) simp
  with False fired settle_one [OF False fired(1)] show ?thesis by simp
qed

theorem settle_terminates_witness:
  "app_reachable (app_run app_init to_confirmation)
   \<and> (\<exists>b. settle (app_run app_init to_confirmation) = Some b \<and> screen b = Home_screen)"
proof -
  have "timers (app_run app_init to_confirmation) \<noteq> []"
    by (simp add: app_run_to_confirmation)
  with settle_terminates [OF app_reachable_confirmation] app_reachable_confirmation
  show ?thesis by auto
qed

subsection \<open>Off the confirmation screen, time is not observable\<close>

fun is_tick :: "app_event \<Rightarrow> bool" where
  "is_tick (Tick d) = True"
| "is_tick _ = False"

fun tick_ms :: "app_event \<Rightarrow> nat" where
  "tick_ms (Tick d) = d"
| "tick_ms _ = 0"

lemma now_enter [simp]: "now (enter sc a) = now a"
  by (cases sc) (simp_all add: pushConfirmation_mount_def)

lemma now_leave [simp]: "now (leave sc a) = now a"
  by (cases sc) (simp_all add: pushConfirmation_cleanup_def)

lemma now_apply_effect: "now (apply_effect eff a) = now a"
proof (cases eff)
  case (Navigate k p)
  then show ?thesis by (cases k) (simp_all add: router_go_def location_assign_def)
qed simp_all

lemma now_app_step: "\<not> is_tick e \<Longrightarrow> now (app_step a e) = now a"
  by (cases e) (simp_all add: now_apply_effect)

lemma enter_now: "sc \<noteq> Push_confirmation \<Longrightarrow> enter sc (a\<lparr>now := n\<rparr>) = (enter sc a)\<lparr>now := n\<rparr>"
  by (cases sc) simp_all

lemma leave_now: "leave sc (a\<lparr>now := n\<rparr>) = (leave sc a)\<lparr>now := n\<rparr>"
  by (cases sc) (simp_all add: pushConfirmation_cleanup_def)

lemma location_assign_now:
  assumes "screen_for p \<noteq> Push_confirmation"
  shows "location_assign p (a\<lparr>now := n\<rparr>) = (location_assign p a)\<lparr>now := n\<rparr>"
proof -
  have eq: "a\<lparr>now := n, timers := []\<rparr> = (a\<lparr>timers := []\<rparr>)\<lparr>now := n\<rparr>"
    by simp
  show ?thesis
    unfolding location_assign_def eq by (rule enter_now [OF assms])
qed

lemma apply_effect_now:
  "avoids_pc eff \<Longrightarrow> apply_effect eff (a\<lparr>now := n\<rparr>) = (apply_effect eff a)\<lparr>now := n\<rparr>"
proof (cases eff)
  case (Navigate k p)
  assume "avoids_pc eff"
  with Navigate have "screen_for p \<noteq> Push_confirmation"
    by (simp add: avoids_pc_def screen_for_pc)
  with Navigate show ?thesis
    by (cases k) (simp_all add: router_go_def location_assign_now enter_now leave_now)
qed simp_all

lemma confirm_avoids_pc: "avoids_pc (confirm_handle ce)"
  by (cases ce) (simp_all add: avoids_pc_def)

lemma now_upd_commute:
  "a\<lparr>now := n, login := x\<rparr> = a\<lparr>login := x, now := n\<rparr>"
  "a\<lparr>now := n, home := y\<rparr> = a\<lparr>home := y, now := n\<rparr>"
  "a\<lparr>now := n, create := z\<rparr> = a\<lparr>create := z, now := n\<rparr>"
  "a\<lparr>now := n, notifs := w\<rparr> = a\<lparr>notifs := w, now := n\<rparr>"
  "a\<lparr>now := n, profile := p\<rparr> = a\<lparr>profile := p, now := n\<rparr>"
  by simp_all

lemma app_step_now:
  "\<not> is_tick e \<Longrightarrow> e \<noteq> Create_ev Push_click \<Longrightarrow>
     app_step (a\<lparr>now := n\<rparr>) e = (app_step a e)\<lparr>now := n\<rparr>"
  by (cases e) (simp_all add: now_upd_commute apply_effect_now handlers_avoid_pc confirm_avoids_pc)

lemma tick_ms_untimed: "\<not> is_tick e \<Longrightarrow> tick_ms e = 0"
  by (cases e) simp_all

lemma is_tick_Tick: "is_tick e \<Longrightarrow> e = Tick (tick_ms e)"
  by (cases e) simp_all

lemma app_inv_now [simp]: "app_inv (a\<lparr>now := n\<rparr>) = app_inv a"
  by (simp add: app_inv_def timers_ok_def screens_ok_def)

lemma off_pc_step:
  "app_inv a \<Longrightarrow> screen a \<noteq> Push_confirmation \<Longrightarrow> e \<noteq> Create_ev Push_click \<Longrightarrow>
     screen (app_step a e) \<noteq> Push_confirmation"
  using app_step_enters_pc by blast

lemma off_pc_no_timers: "app_inv a \<Longrightarrow> screen a \<noteq> Push_confirmation \<Longrightarrow> timers a = []"
  by (simp add: app_inv_def timers_ok_def)

lemma app_run_now:
  assumes "app_inv a" and "screen a \<noteq> Push_confirmation"
    and "list_all (\<lambda>e. app_event_ok e \<and> \<not> is_tick e \<and> e \<noteq> Create_ev Push_click) us"
  shows "app_run (a\<lparr>now := n\<rparr>) us = (app_run a us)\<lparr>now := n\<rparr>"
  using assms
proof (induction us arbitrary: a)
  case Nil
  then show ?case by simp
next
  case (Cons e us)
  then have e: "app_event_ok e" "\<not> is_tick e" "e \<noteq> Create_ev Push_click"
    by simp_all
  from Cons.prems(1) e(1) have "app_inv (app_step a e)"
    by (rule app_step_inv)
  moreover from Cons.prems(1,2) e(3) have "screen (app_step a e) \<noteq> Push_confirmation"
    by (rule off_pc_step)
  ultimately have "app_run ((app_step a e)\<lparr>now := n\<rparr>) us = (app_run (app_step a e) us)\<lparr>now := n\<rparr>"
    using Cons.IH Cons.prems(3) by simp
  with app_step_now [OF e(2,3)] show ?case by simp
qed

lemma app_run_untimed:
  assumes "app_inv a" and "screen a \<noteq> Push_confirmation"
    and "list_all (\<lambda>e. app_event_ok e \<and> e \<noteq> Create_ev Push_click) es"
  shows "app_run a es =
           (app_run a (filter (\<lambda>e. \<not> is_tick e) es))\<lparr>now := now a + sum_list (map tick_ms es)\<rparr>"
  using assms
proof (induction es arbitrary: a)
  case Nil
  then show ?case by simp
next
  case (Cons e es)
  have ok: "list_all (\<lambda>e. app_event_ok e \<and> \<not> is_tick e \<and> e \<noteq> Create_ev Push_click)
      (filter (\<lambda>e. \<not> is_tick e) es)"
    using Cons.prems(3) by (auto simp: list_all_iff)
  show ?case
  proof (cases "is_tick e")
    case True
    let ?a = "a\<lparr>now := now a + tick_ms e\<rparr>"
    have step: "app_step a e = ?a"
      using is_tick_Tick [OF True] off_pc_no_timers [OF Cons.prems(1,2)]
      by (metis app_step.simps(8) tick_no_timers)
    have "app_run ?a es =
            (app_run ?a (filter (\<lambda>e. \<not> is_tick e) es))\<lparr>now := now ?a + sum_list (map tick_ms es)\<rparr>"
      using Cons.IH [of ?a] Cons.prems by simp
    moreover have "app_run ?a (filter (\<lambda>e. \<not> is_tick e) es) =
        (app_run a (filter (\<lambda>e. \<not> is_tick e) es))\<lparr>now := now a + tick_ms e\<rparr>"
      using app_run_now [OF Cons.prems(1,2) ok] .
    ultimately show ?thesis
      using True step by (simp add: add.assoc)
  next
    case False
    let ?b = "app_step a e"
    from Cons.prems(1,3) have "app_inv ?b"
      by (simp add: app_step_inv)
    moreover from Cons.prems have "screen ?b \<noteq> Push_confirmation"
      by (simp add: off_pc_step)
    ultimately have "app_run ?b es =
        (app_run ?b (filter (\<lambda>e. \<not> is_tick e) es))\<lparr>now := now ?b + sum_list (map tick_ms es)\<rparr>"
      using Cons.IH Cons.prems(3) by simp
    with False show ?thesis
      by (simp add: now_app_step tick_ms_untimed)
  qed
qed

text \<open>
  C29. The confirmation's redirect is the only asynchronous behaviour (spec section 5): from a
  reachable state off the confirmation screen, any run of deliverable events without a Push
  click ends in the state of the same run with its ticks left out, the clock apart. How long
  the user waits between actions changes nothing on the other screens.
\<close>

theorem ticks_only_move_clock:
  assumes "app_reachable a" and "screen a \<noteq> Push_confirmation"
    and "list_all app_event_ok es" and "Create_ev Push_click \<notin> set es"
  shows "app_run a es =
           (app_run a (filter (\<lambda>e. \<not> is_tick e) es))\<lparr>now := now a + sum_list (map tick_ms es)\<rparr>"
proof (rule app_run_untimed [OF app_reachable_inv [OF assms(1)] assms(2)])
  show "list_all (\<lambda>e. app_event_ok e \<and> e \<noteq> Create_ev Push_click) es"
    using assms(3,4) by (auto simp: list_all_iff)
qed

theorem ticks_only_move_clock_witness:
  "app_reachable (app_run app_init to_form)
   \<and> screen (app_run app_init to_form) \<noteq> Push_confirmation
   \<and> app_run (app_run app_init to_form)
       [Tick 3000, Create_ev Back_to_home_link, Tick 10000, Home_ev Alerts_tab_link]
     = (app_run (app_run app_init to_form) [Create_ev Back_to_home_link, Home_ev Alerts_tab_link])
         \<lparr>now := 13000\<rparr>"
proof -
  have s: "screen (app_run app_init to_form) \<noteq> Push_confirmation"
    and n: "now (app_run app_init to_form) = 0"
    by (simp_all add: app_run_to_form)
  from ticks_only_move_clock [OF app_reachable_form s,
      of "[Tick 3000, Create_ev Back_to_home_link, Tick 10000, Home_ev Alerts_tab_link]"]
    app_reachable_form s n
  show ?thesis by simp
qed

end
