(* ===== verification/Navigation.thy ===== *)
theory Navigation
  imports Redirect
begin

text \<open>
  The navigation graph of the spec (section 4.4) as an abstract specification, and the
  application's screen changes as its implementation. \<open>spec_edges\<close> are the edges the spec
  lists; \<open>back_edges\<close> are the back links the screens render in addition (the arrow of the
  login, create-post, notifications and profile headers). \<open>nav_ok sc eff\<close> says that the
  effect of a handler of screen \<open>sc\<close> stays on \<open>sc\<close> or follows one of these edges. The
  abstraction of an application state is its mounted \<open>screen\<close>: every step of the
  application maps to a step of the graph or to no step.
\<close>

definition spec_edges :: "(screen \<times> screen) list" where
  "spec_edges =
     [(Welcome, Login_screen), (Login_screen, Home_screen), (Home_screen, Create_post_screen),
      (Home_screen, Notifications_screen), (Home_screen, Profile_screen),
      (Create_post_screen, Push_confirmation), (Push_confirmation, Notifications_screen),
      (Push_confirmation, Home_screen)]"

definition back_edges :: "(screen \<times> screen) list" where
  "back_edges =
     [(Login_screen, Welcome), (Create_post_screen, Home_screen),
      (Notifications_screen, Home_screen), (Profile_screen, Home_screen)]"

definition nav_ok :: "screen \<Rightarrow> effect \<Rightarrow> bool" where
  "nav_ok sc eff \<longleftrightarrow>
     (case eff of
        Navigate k p \<Rightarrow> screen_for p = sc \<or> (sc, screen_for p) \<in> set (spec_edges @ back_edges)
      | _ \<Rightarrow> True)"

subsection \<open>Each screen's handlers follow the graph\<close>

lemmas nav_defs = nav_ok_def spec_edges_def back_edges_def

lemma login_nav_ok: "nav_ok Login_screen (snd (login_handle s e))"
  by (cases e) (simp_all add: nav_defs handleOtpSubmit_def)

lemma home_nav_ok: "nav_ok Home_screen (snd (home_handle s e))"
  by (cases e) (simp_all add: nav_defs handleInterested_def handlePushAgain_def)

lemma create_nav_ok: "nav_ok Create_post_screen (snd (create_handle s e))"
  by (cases e) (simp_all add: nav_defs handleSubmit_def)

lemma notif_nav_ok: "nav_ok Notifications_screen (snd (notif_handle s e))"
  by (cases e) (simp_all add: nav_defs)

lemma profile_nav_ok: "nav_ok Profile_screen (snd (profile_handle s e))"
  by (cases e) (simp_all add: nav_defs)

lemma welcome_nav_ok: "nav_ok Welcome (welcome_handle e)"
  by (cases e) (simp add: nav_defs)

lemma confirm_nav_ok: "nav_ok Push_confirmation (confirm_handle e)"
  by (cases e) (simp_all add: nav_defs)

lemmas handlers_nav_ok = login_nav_ok home_nav_ok create_nav_ok notif_nav_ok profile_nav_ok
  welcome_nav_ok confirm_nav_ok

lemma apply_effect_edge:
  assumes "nav_ok (screen a) eff" and "screen (apply_effect eff a) \<noteq> screen a"
  shows "(screen a, screen (apply_effect eff a)) \<in> set (spec_edges @ back_edges)"
  using assms
  by (auto simp: screen_apply_effect nav_ok_def split: effect.splits nav_kind.splits if_splits)

lemma tick_screen:
  assumes "timers_ok a"
  shows "screen (tick d a) = screen a \<or> (screen a = Push_confirmation \<and> screen (tick d a) = Home_screen)"
proof (cases "timers a = []")
  case True
  then show ?thesis by (simp add: tick_no_timers)
next
  case False
  with assms obtain t where t: "timers a = [t]" "callback t = ''/home''" "screen a = Push_confirmation"
    by (rule timers_single)
  then show ?thesis
    by (simp add: tick_def location_assign_def)
qed

lemma screen_event_edge:
  assumes "screen b = screen a" and "nav_ok (screen a) eff"
    and "screen (apply_effect eff b) \<noteq> screen a"
  shows "(screen a, screen (apply_effect eff b)) \<in> set (spec_edges @ back_edges)"
  using apply_effect_edge [of b eff] assms by simp

lemma taken_edge:
  "app_reachable a \<Longrightarrow> app_event_ok e \<Longrightarrow> screen a = x \<Longrightarrow> screen (app_step a e) = y \<Longrightarrow>
     \<exists>a e. app_reachable a \<and> app_event_ok e \<and> screen a = x \<and> screen (app_step a e) = y"
  by blast

text \<open>
  C26. The application refines the spec's navigation graph: every step of a reachable state
  that changes the mounted screen follows an edge of spec section 4.4 or one of the four
  back links the screens render.
\<close>

theorem navigation_refines_spec:
  assumes "app_reachable a" and "screen (app_step a e) \<noteq> screen a"
  shows "(screen a, screen (app_step a e)) \<in> set (spec_edges @ back_edges)"
proof (cases e)
  case (Welcome_ev we)
  with assms(2) welcome_nav_ok screen_event_edge [of a a "welcome_handle we"]
  show ?thesis by (auto split: if_splits)
next
  case (Login_ev le)
  with assms(2) login_nav_ok screen_event_edge [of "a\<lparr>login := fst (login_handle (login a) le)\<rparr>" a]
  show ?thesis by (auto split: if_splits)
next
  case (Home_ev he)
  with assms(2) home_nav_ok screen_event_edge [of "a\<lparr>home := fst (home_handle (home a) he)\<rparr>" a]
  show ?thesis by (auto split: if_splits)
next
  case (Create_ev ce)
  with assms(2) create_nav_ok screen_event_edge [of "a\<lparr>create := fst (create_handle (create a) ce)\<rparr>" a]
  show ?thesis by (auto split: if_splits)
next
  case (Confirm_ev ce)
  with assms(2) confirm_nav_ok screen_event_edge [of a a "confirm_handle ce"]
  show ?thesis by (auto split: if_splits)
next
  case (Notif_ev ne)
  with assms(2) notif_nav_ok screen_event_edge [of "a\<lparr>notifs := fst (notif_handle (notifs a) ne)\<rparr>" a]
  show ?thesis by (auto split: if_splits)
next
  case (Profile_ev pe)
  with assms(2) profile_nav_ok screen_event_edge [of "a\<lparr>profile := fst (profile_handle (profile a) pe)\<rparr>" a]
  show ?thesis by (auto split: if_splits)
next
  case (Tick d)
  from app_reachable_inv [OF assms(1)] have "timers_ok a"
    by (simp add: app_inv_def)
  from tick_screen [OF this, of d] Tick assms(2) show ?thesis
    by (auto simp: spec_edges_def)
qed

theorem navigation_refines_spec_witness:
  "app_reachable (app_run app_init to_confirmation)
   \<and> screen (app_step (app_run app_init to_confirmation) (Tick 5000))
       \<noteq> screen (app_run app_init to_confirmation)
   \<and> (Push_confirmation, Home_screen) \<in> set (spec_edges @ back_edges)"
proof -
  have "screen (app_step (app_run app_init to_confirmation) (Tick 5000)) = Home_screen"
    and "screen (app_run app_init to_confirmation) = Push_confirmation"
    by (simp_all add: app_run_to_confirmation tick_def location_assign_def)
  with navigation_refines_spec [OF app_reachable_confirmation, of "Tick 5000"]
    app_reachable_confirmation
  show ?thesis by simp
qed

text \<open>
  C27. Conversely, every edge the spec lists is taken by the application: for each one there
  is a reachable state on its source screen and a deliverable event that lands on its target.
\<close>

theorem spec_edges_realised:
  "list_all (\<lambda>(x, y). \<exists>a e. app_reachable a \<and> app_event_ok e \<and> screen a = x \<and> screen (app_step a e) = y)
     spec_edges"
proof -
  have reach: "app_reachable (app_run app_init es)" if "list_all app_event_ok es" for es
    using app_run_reachable [OF app_start that] .
  let ?l = "app_run app_init [Welcome_ev Get_started_link]"
  let ?h = "app_run app_init [Welcome_ev Get_started_link, Login_ev Skip_link]"
  let ?f = "app_run app_init to_form"
  let ?c = "app_run app_init to_confirmation"
  have l: "app_reachable ?l" "screen ?l = Login_screen"
    using reach [of "[Welcome_ev Get_started_link]"] by (simp_all add: app_init_def router_go_def)
  have h: "app_reachable ?h" "screen ?h = Home_screen"
    using reach [of "[Welcome_ev Get_started_link, Login_ev Skip_link]"]
    by (simp_all add: app_init_def router_go_def)
  have h_steps: "screen (app_step ?h (Home_ev Create_post_button_link)) = Create_post_screen"
    "screen (app_step ?h (Home_ev Notifications_icon_link)) = Notifications_screen"
    "screen (app_step ?h (Home_ev Profile_avatar_link)) = Profile_screen"
    by (simp_all add: app_init_def router_go_def)
  have f: "screen ?f = Create_post_screen" "isFormValid (create ?f)"
    using scenario_A_valid_record by (simp_all add: app_run_to_form)
  have f_step: "screen (app_step ?f (Create_ev Push_click)) = Push_confirmation"
    using push_from_valid_form [OF app_reachable_inv [OF app_reachable_form] f] by simp
  have c: "screen ?c = Push_confirmation"
    "screen (app_step ?c (Confirm_ev View_responses_link)) = Notifications_screen"
    "screen (app_step ?c (Confirm_ev Back_to_feed_link)) = Home_screen"
    by (simp_all add: app_run_to_confirmation router_go_def)
  have e1: "screen (app_step app_init (Welcome_ev Get_started_link)) = Login_screen"
    by (simp add: app_init_def router_go_def)
  have e2: "screen (app_step ?l (Login_ev Skip_link)) = Home_screen"
    by (simp add: app_init_def router_go_def)
  from taken_edge [OF app_start _ app_init_sel(1) e1] taken_edge [OF l(1) _ l(2) e2]
    taken_edge [OF h(1) _ h(2) h_steps(1)] taken_edge [OF h(1) _ h(2) h_steps(2)]
    taken_edge [OF h(1) _ h(2) h_steps(3)] taken_edge [OF app_reachable_form _ f(1) f_step]
    taken_edge [OF app_reachable_confirmation _ c(1) c(2)]
    taken_edge [OF app_reachable_confirmation _ c(1) c(3)]
  show ?thesis
    by (simp add: spec_edges_def)
qed

end
