(* ===== verification/Spec2Isabelle.thy ===== *)
theory Spec2Isabelle
  imports Navigation
begin

text \<open>
  \<^bold>\<open>Bartr screens: a verification development.\<close>

  \<^bold>\<open>The program.\<close> \<^verbatim>\<open>src/client/pages/*.tsx\<close> are seven React screens of a
  hyperlocal posting app. Each screen keeps its state in \<open>useState\<close> hooks, changes it in
  event handlers and moves to another screen through react-router (\<open>Link\<close>,
  \<open>navigate\<close>) or by assigning \<open>window.location.href\<close>. There is no backend: the
  data are literals in the files. The parts that carry logic are the login step machine with
  its phone validation, the create-post form with its validity check and asynchronous image
  preview, the list updates of the feed and of the notifications, the profile tabs, and the
  confirmation screen's 5000 ms redirect timer with its cleanup.

  \<^bold>\<open>Theories.\<close>
  \<^item> \<^verbatim>\<open>Prelude\<close>: JavaScript strings as lists of UTF-16 code units (\<open>16 word\<close>), the
    literal embedding \<open>str\<close>, \<open>String.prototype.trim\<close> (\<open>js_trim\<close>), and the
    \<open>effect\<close> a handler returns (nothing, a console line, a navigation of one of three
    kinds), and \<open>js_nat_string\<close>, the decimal text JSX prints for a count. The collection \<open>js_simps\<close> evaluates literals on demand.
  \<^item> \<^verbatim>\<open>JS_Regex\<close>: the fragment of \<open>RegExp.prototype.test\<close> the code uses
    (classes, concatenation, anchors, counted repetition), as a residual-list matcher.
  \<^item> \<^verbatim>\<open>JS_Date\<close>: the part of \<open>Date\<close> the profile uses: a date-only string
    read as midnight UTC and \<open>toLocaleDateString\<close> in a zone of fixed offset, with the
    Gregorian day-number conversions \<open>days_from_civil\<close>/\<open>civil_from_days\<close>.
  \<^item> \<^verbatim>\<open>Keyed_List\<close>: the list-store contract of the spec (section 4.2):
    \<open>remove_by_key\<close>, \<open>update_by_key\<close>, \<open>update_every\<close> and the abstraction
    \<open>store_of\<close> to a partial map, with order, size and map-refinement lemmas.
  \<^item> \<^verbatim>\<open>Login\<close> (\<^verbatim>\<open>Login.tsx\<close>): \<open>login_state\<close> are the four hooks;
    \<open>validatePhone\<close>, \<open>handlePhoneSubmit\<close>, \<open>handleOtpSubmit\<close> the functions;
    \<open>login_handle\<close> the rendered controls, with the \<open>disabled\<close> conditions
    \<open>sendOtpDisabled\<close>/\<open>verifyDisabled\<close> and the \<open>maxLength\<close> bounds
    \<open>login_input_ok\<close>; \<open>login_render\<close> the step-dependent view and the terms line.
  \<^item> \<^verbatim>\<open>Feed\<close> (\<^verbatim>\<open>Home.tsx\<close>): \<open>post\<close>, \<open>mockPosts\<close>, the handlers
    \<open>handleInterested\<close>, \<open>handleIgnore\<close>, \<open>handlePushAgain\<close>, the card view
    \<open>render_post\<close> and the page \<open>home_page\<close>; clicks address the \<open>i\<close>-th rendered card.
  \<^item> \<^verbatim>\<open>Notifications\<close> (\<^verbatim>\<open>Notifications.tsx\<close>): \<open>markAsRead\<close>,
    \<open>markAllAsRead\<close>, \<open>unreadCount\<close>, the card's click guard \<open>card_onClick\<close>, the card
    and header views.
  \<^item> \<^verbatim>\<open>CreatePost\<close> (\<^verbatim>\<open>CreatePost.tsx\<close>): the five hooks plus the outstanding
    \<open>FileReader\<close>s, \<open>handleImageUpload\<close>, the reader's \<open>onload\<close>
    (\<open>reader_onload\<close>), \<open>handleSubmit\<close>, \<open>isFormValid\<close>, \<open>create_handle\<close>, and
    the rendered page \<open>create_render\<close> (select value, options, counter, preview, anonymous
    switch, push-range box, Push button).
  \<^item> \<^verbatim>\<open>Profile\<close> (\<^verbatim>\<open>Profile.tsx\<close>): the static data, the active tab, the
    panel it selects (\<open>profile_render\<close>), and the rendered page \<open>profile_page\<close>: the
    profile header and stats, the post cards (\<open>render_my_post\<close>), the badge cards with
    their "Earned on" date \<open>earned_on\<close>, which depends on the browser's time zone
    (\<open>render_badge\<close>), and the badge-progress block. Numbers are printed by
    \<open>js_nat_string\<close> of \<^verbatim>\<open>Prelude\<close>.
  \<^item> \<^verbatim>\<open>Static_Screens\<close> (\<^verbatim>\<open>Welcome.tsx\<close>, \<^verbatim>\<open>PushConfirmation.tsx\<close>): the
    links of the two stateless screens (\<open>welcome_handle\<close>, \<open>confirm_handle\<close>) and
    their rendered pages \<open>welcome_render\<close> and \<open>confirm_render\<close>, whose actions pair
    each label with the link's event.
  \<^item> \<^verbatim>\<open>App\<close>: the composition. \<open>app\<close> holds the mounted screen, each screen's
    state, the browser's pending timers and clock. \<open>routes\<close> is the route table of the
    spec (the router file is not under \<^verbatim>\<open>src/\<close>); \<open>router_go\<close> is a react-router
    navigation (remount only on a change of route, running the effect cleanup of the screen
    left), \<open>location_assign\<close> a full page load (all timers dropped);
    \<open>pushConfirmation_mount\<close>/\<open>pushConfirmation_cleanup\<close> are the \<open>useEffect\<close>
    of \<^verbatim>\<open>PushConfirmation.tsx\<close>; \<open>app_step\<close> dispatches an event to the mounted
    screen, \<open>Tick d\<close> lets time pass. \<open>app_reachable\<close> is the set of states reached
    from the welcome screen by events the browser can deliver (\<open>app_event_ok\<close>).
  \<^item> \<^verbatim>\<open>Redirect\<close>: the confirmation's timer over time. \<open>pc_window\<close> is its
    timing invariant; \<open>fire_next\<close> is the browser's event loop running the earliest
    due timer when the user does nothing, and \<open>settle\<close> iterates it with
    \<open>while_option\<close>, so a redirect chain that never ended would be \<open>None\<close>.
    \<open>is_tick\<close>/\<open>tick_ms\<close> split a run into its user events and the time that passes.
  \<^item> \<^verbatim>\<open>Navigation\<close>: the spec's navigation graph (section 4.4, \<open>spec_edges\<close>)
    plus the rendered back links (\<open>back_edges\<close>) as the abstract specification of screen
    changes; the abstraction of an application state is its mounted \<open>screen\<close>.

  \<^bold>\<open>How the proofs are organised.\<close> Each screen has a deterministic handler
  \<open>s \<Rightarrow> event \<Rightarrow> s \<times> effect\<close>, an inductive set of the states it reaches on its
  own, and an invariant proved by rule induction over that set. The application invariant
  \<open>app_inv\<close> (no unknown route; a pending timer only on the mounted confirmation screen;
  every screen's state reachable for that screen) is proved one kind of step at a time
  (mount, unmount, reload, tick, each screen's events) and lifted to \<open>app_reachable\<close>.
  Concrete runs (\<open>to_form\<close>, \<open>to_confirmation\<close>) evaluate by \<open>simp\<close> and serve
  as witnesses.

  \<^bold>\<open>What the lemmas show.\<close> Phone validation equals its direct description; the login
  step machine moves to OTP entry only with a valid number, never shows the OTP error and
  leaves on any six code units; dismissing a card is the spec's \<open>removeById\<close> and the feed
  stays a subsequence of the seed; marking read never loses or reorders notifications;
  Push navigates exactly on a valid form; the
  image preview can show a file other than the selected one; the redirect timer exists
  only while the confirmation is mounted, fires after exactly 5000 ms, is always due within
  the next 5000 ms, and is cancelled by leaving, in particular by either action the page
  renders; with no input the event loop settles on the home feed; the confirmation is
  entered only by a valid push. Files whose readers finish in
  start order are previewed correctly. Validation failures set only their message or do
  nothing (spec section 7), and every link targets a route of the table. Every screen change
  follows the spec's graph or a back link, and every edge of that graph is taken.
  Resend OTP keeps the entered code, and the notifications header agrees with its cards.
  The badges' earned dates are shown one day early in every time zone west of UTC. Off the
  confirmation screen time is not observable: a run ends as the same run without its
  ticks, the clock apart (spec section 5, the redirect is the only asynchronous primitive).

  \<^bold>\<open>Bounds and modelling choices.\<close> Time is a natural number of milliseconds and a
  tick of any length is one event; no fuel is needed, as every handler is non-recursive and
  runs are finite event lists. The idle event loop \<open>settle\<close> is a \<open>while_option\<close>
  and is shown to return (\<open>Some\<close>) after at most one timer, as every timer the code
  registers reloads the page when it fires. A timer fires at exactly its due time: a tick
  that reaches the due time runs the callback. This is an idealisation: a browser promises
  only that a timer does not fire early, and it may run it later. So the 5000 ms of the
  timing lemmas is the earliest redirect, and \<open>Tick\<close> stands for the first moment the
  event loop gets to run the timer. Time zones are fixed offsets of less than a
  day (real zones lie between -12 and +14 hours); daylight saving is not modelled. Inputs obey their \<open>maxLength\<close> (10, 6, 500) as the
  browser enforces it. A selected file is known by its data URL. React's batching and
  StrictMode double effects are not modelled: every handler's updates are applied together.

  \<^bold>\<open>Not modelled.\<close> Styling, icons, SVG artwork and the UI library (pure
  presentation; every page is modelled by a view record holding its texts, values and
  actions in document order, with class names kept only where the code computes them
  (category and status badges, notification highlight)). Also left out: what the Google,
  settings and edit buttons would do, as they have no handler (they are events with no
  effect);
  the router file itself (its table is taken from the spec); \<open>console.log\<close> formatting
  beyond the message text.

  The root theory adds properties that span screens: what the rest of the application can
  tell about how the user left the login screen, what a failed validation changes, and
  where links lead.
\<close>

definition to_otp_entry :: "app_event list" where
  "to_otp_entry =
     [Welcome_ev Get_started_link, Login_ev (Phone_input (str ''9876543210'')),
      Login_ev Send_otp_click, Login_ev (Otp_input (str ''123456''))]"

lemma app_step_skip:
  assumes "app_inv a" and "screen a = Login_screen"
  shows "app_step a (Login_ev Skip_link) = a\<lparr>screen := Home_screen, home := home_init\<rparr>"
proof -
  from assms have "timers a = []"
    by (simp add: app_inv_def timers_ok_def)
  with assms(2) show ?thesis
    by (simp add: router_go_def)
qed

lemma app_step_verify:
  assumes "screen a = Login_screen" and "step (login a) = Step_otp" and "length (otp (login a)) = 6"
  shows "app_step a (Login_ev Verify_click) =
           a\<lparr>login := (login a)\<lparr>errors := no_errors\<rparr>, timers := [],
             screen := Home_screen, home := home_init\<rparr>"
  using assms by (simp add: handleOtpSubmit_def verifyDisabled_def location_assign_def)

lemma app_run_to_otp_entry:
  "app_run app_init to_otp_entry =
     app_init\<lparr>screen := Login_screen,
       login := login_init\<lparr>step := Step_otp, phoneNumber := str ''9876543210'', otp := str ''123456''\<rparr>\<rparr>"
proof -
  have "validatePhone (str ''9876543210'')"
    by (simp add: validatePhone_iff js_simps)
  then show ?thesis
    by (simp add: to_otp_entry_def router_go_def handlePhoneSubmit_def sendOtpDisabled_def
        login_init_def no_errors_def)
qed

lemma app_reachable_otp_entry: "app_reachable (app_run app_init to_otp_entry)"
  by (rule app_run_reachable [OF app_start]) (simp add: to_otp_entry_def)

text \<open>
  C17. Skipping login and verifying an OTP lead to the same application state: the home
  feed mounted afresh with no pending timer, and nothing but the left-over state of the
  unmounted login screen differs. No session or authentication flag records which way the
  user came (the spec's open question in section 9).
\<close>

theorem skip_and_verify_agree:
  assumes "app_reachable a" and "screen a = Login_screen"
    and "step (login a) = Step_otp" and "length (otp (login a)) = 6"
  shows "(app_step a (Login_ev Verify_click))\<lparr>login := login a\<rparr> = app_step a (Login_ev Skip_link)
       \<and> screen (app_step a (Login_ev Verify_click)) = Home_screen"
proof -
  from assms(1) have inv: "app_inv a" by (rule app_reachable_inv)
  from inv assms(2) have "timers a = []"
    by (simp add: app_inv_def timers_ok_def)
  with app_step_skip [OF inv assms(2)] app_step_verify [OF assms(2,3,4)] show ?thesis
    by simp
qed

theorem skip_and_verify_agree_witness:
  "app_reachable (app_run app_init to_otp_entry)
   \<and> screen (app_step (app_run app_init to_otp_entry) (Login_ev Verify_click)) = Home_screen"
proof -
  have s: "screen (app_run app_init to_otp_entry) = Login_screen"
    and st: "step (login (app_run app_init to_otp_entry)) = Step_otp"
    and o: "length (otp (login (app_run app_init to_otp_entry))) = 6"
    by (simp_all add: app_run_to_otp_entry)
  from skip_and_verify_agree [OF app_reachable_otp_entry s st o] app_reachable_otp_entry
  show ?thesis by simp
qed

definition to_bad_phone :: "app_event list" where
  "to_bad_phone =
     [Welcome_ev Get_started_link, Login_ev (Phone_input (str ''1234567890''))]"

definition to_short_form :: "app_event list" where
  "to_short_form =
     [Welcome_ev Get_started_link, Login_ev Skip_link, Home_ev Create_post_button_link,
      Create_ev (Description_input (str ''short''))]"

lemma app_run_to_bad_phone:
  "app_run app_init to_bad_phone =
     app_init\<lparr>screen := Login_screen, login := login_init\<lparr>phoneNumber := str ''1234567890''\<rparr>\<rparr>"
  by (simp add: to_bad_phone_def router_go_def login_init_def)

lemma app_run_to_short_form:
  "app_run app_init to_short_form =
     app_init\<lparr>screen := Create_post_screen, create := create_init\<lparr>description := str ''short''\<rparr>\<rparr>"
  by (simp add: to_short_form_def app_init_def router_go_def)

lemma bad_phone_invalid: "\<not> validatePhone (str ''1234567890'')"
  by (simp add: validatePhone_iff js_simps)

text \<open>
  C22. Validation failures are surfaced and change nothing else (spec section 7): on the
  phone step, Send OTP with an invalid number only sets the phone message when the number
  has ten code units and does nothing otherwise (the button is disabled); Verify with an
  OTP of another length than six does nothing; Push with an invalid form does nothing. In
  each case the screen, every other screen's state and the timers stay as they were.
\<close>

theorem validation_failures:
  "(screen a = Login_screen \<and> step (login a) = Step_phone \<and> \<not> validatePhone (phoneNumber (login a))
      \<longrightarrow> app_step a (Login_ev Send_otp_click) =
            (if length (phoneNumber (login a)) = 10
             then a\<lparr>login := (login a)\<lparr>errors := \<lparr>phone_error = Some phone_message, otp_error = None\<rparr>\<rparr>\<rparr>
             else a))
   \<and> (screen a = Login_screen \<and> step (login a) = Step_otp \<and> length (otp (login a)) \<noteq> 6
      \<longrightarrow> app_step a (Login_ev Verify_click) = a)
   \<and> (screen a = Create_post_screen \<and> \<not> isFormValid (create a)
      \<longrightarrow> app_step a (Create_ev Push_click) = a)"
  by (auto simp: login_defs)

theorem validation_failures_witness:
  "screen (app_run app_init to_bad_phone) = Login_screen
   \<and> step (login (app_run app_init to_bad_phone)) = Step_phone
   \<and> \<not> validatePhone (phoneNumber (login (app_run app_init to_bad_phone)))
   \<and> view_error (login_render (login (app_step (app_run app_init to_bad_phone)
        (Login_ev Send_otp_click)))) = Some phone_message
   \<and> screen (app_step (app_run app_init to_bad_phone) (Login_ev Send_otp_click)) = Login_screen
   \<and> screen (app_run app_init to_short_form) = Create_post_screen
   \<and> \<not> isFormValid (create (app_run app_init to_short_form))
   \<and> app_step (app_run app_init to_short_form) (Create_ev Push_click) = app_run app_init to_short_form"
proof -
  have l: "screen (app_run app_init to_bad_phone) = Login_screen"
    "step (login (app_run app_init to_bad_phone)) = Step_phone"
    "\<not> validatePhone (phoneNumber (login (app_run app_init to_bad_phone)))"
    "length (phoneNumber (login (app_run app_init to_bad_phone))) = 10"
    using bad_phone_invalid by (simp_all add: app_run_to_bad_phone login_init_def)
  have c: "screen (app_run app_init to_short_form) = Create_post_screen"
    "\<not> isFormValid (create (app_run app_init to_short_form))"
    by (simp_all add: app_run_to_short_form isFormValid_def create_init_def)
  from validation_failures [of "app_run app_init to_bad_phone"] l
  have "app_step (app_run app_init to_bad_phone) (Login_ev Send_otp_click) =
          (app_run app_init to_bad_phone)\<lparr>login := (login (app_run app_init to_bad_phone))
            \<lparr>errors := \<lparr>phone_error = Some phone_message, otp_error = None\<rparr>\<rparr>\<rparr>"
    by simp
  moreover from validation_failures [of "app_run app_init to_short_form"] c
  have "app_step (app_run app_init to_short_form) (Create_ev Push_click) = app_run app_init to_short_form"
    by simp
  ultimately show ?thesis
    using l c by (simp add: login_render_def app_run_to_bad_phone)
qed

text \<open>
  C23. Every navigation a control of any screen performs targets a path of the route table:
  no link of the sources leads to the unknown-route page.
\<close>

theorem links_target_routes:
  "routed (snd (login_handle ls le)) \<and> routed (snd (home_handle hs he))
   \<and> routed (snd (create_handle cs ce)) \<and> routed (snd (notif_handle ns ne))
   \<and> routed (snd (profile_handle ps pe)) \<and> routed (welcome_handle we)
   \<and> routed (confirm_handle cf)"
  using handle_routed by (cases we, cases cf) simp_all

end
